theory Spec2Isabelle
  imports Main
begin

section \<open>Broker deployment (pkg/deploy/broker.go)\<close>

text \<open>
  The orchestrator \<open>Broker\<close> and its helpers \<open>deploy\<close>, \<open>isValidComponents\<close> and
  \<open>checkGlobalnetConfig\<close> are embedded as pure functions. Everything they do to the
  outside world (reporter calls, calls into other packages) is written into an event
  trace, in the order the Go code performs it; the mutation of the \<open>*BrokerOptions\<close>
  argument is made explicit by returning the options as they are when the function
  returns.
\<close>

subsection \<open>Errors\<close>

text \<open>
  A Go \<open>error\<close> value is \<open>error option\<close>, \<open>None\<close> being \<open>nil\<close>.
  \<open>Error msg\<close> is \<open>fmt.Errorf\<close> (or any root cause of a collaborator),
  \<open>Wrapped e msg\<close> is what \<open>errors.Wrap(e, msg)\<close> builds for a non-nil \<open>e\<close>.
\<close>

datatype error = Error string | Wrapped error string

fun errors_Wrap :: "error option \<Rightarrow> string \<Rightarrow> error option" where
  "errors_Wrap None message = None"
| "errors_Wrap (Some e) message = Some (Wrapped e message)"

subsection \<open>Data\<close>

type_synonym Config = string
type_synonym ConfigMap = "(string \<times> string) list"

text \<open>The fields of \<open>submarinerv1a1.BrokerSpec\<close> that broker.go reads or writes.\<close>

record BrokerSpec =
  Components :: "string list"
  DefaultCustomDomains :: "string list"
  GlobalnetEnabled :: bool
  GlobalnetCIDRRange :: string
  DefaultGlobalnetClusterSize :: nat

record BrokerOptions =
  OperatorDebug :: bool
  IpsecSubmFile :: string
  GlobalCIDRConfigMap :: "ConfigMap option"
  Repository :: string
  ImageVersion :: string
  BrokerNamespace :: string
  BrokerSpec :: BrokerSpec

text \<open>
  Modelled from the spec: the descriptor type \<open>datafile.SubctlData\<close> is not among the
  sources. The descriptor holds the connection coordinates, the secret material, the
  \<open>serviceDiscovery\<close> flag, the resolved component set and the optional custom domain
  list.
\<close>

record SubctlData =
  BrokerURL :: string
  IPSecPSK :: string
  ServiceDiscovery :: bool
  Components_subm :: "string list"
  CustomDomains :: "string list option"

text \<open>
  Modelled from the spec: the component names of package \<open>components\<close> are not among
  the sources; the spec gives the vocabulary as service-discovery, connectivity and
  globalnet.
\<close>

definition components_ServiceDiscovery :: string where
  "components_ServiceDiscovery = ''service-discovery''"

definition components_Connectivity :: string where
  "components_Connectivity = ''connectivity''"

definition components_Globalnet :: string where
  "components_Globalnet = ''globalnet''"

definition ValidComponents :: "string list" where
  "ValidComponents = [components_ServiceDiscovery, components_Connectivity]"

definition brokerDetailsFilename :: string where
  "brokerDetailsFilename = ''broker-info.subm''"

subsection \<open>String sets\<close>

text \<open>
  \<open>stringset.Interface\<close> of the admiral library: a set of strings. It is represented by
  a duplicate-free list; \<open>Elements\<close> hands out the members in the order of the list.
  (Go enumerates them in an unspecified order; the properties below that speak about
  \<open>isValidComponents\<close> hold for every enumeration.)
\<close>

type_synonym stringset = "string list"

definition stringset_Add :: "stringset \<Rightarrow> string \<Rightarrow> stringset" where
  "stringset_Add s x = (if x \<in> set s then s else s @ [x])"

definition stringset_New :: "string list \<Rightarrow> stringset" where
  "stringset_New items = foldl stringset_Add [] items"

definition stringset_Contains :: "stringset \<Rightarrow> string \<Rightarrow> bool" where
  "stringset_Contains s x = (x \<in> set s)"

definition stringset_Size :: "stringset \<Rightarrow> nat" where
  "stringset_Size s = length s"

definition stringset_Elements :: "stringset \<Rightarrow> string list" where
  "stringset_Elements s = s"

text \<open>
  Modelled from the spec: \<open>SubctlData.SetComponents\<close> is not among the sources; it
  records the members of the set it is given as the descriptor's component list.
\<close>

definition SetComponents :: "SubctlData \<Rightarrow> stringset \<Rightarrow> SubctlData" where
  "SetComponents data componentSet = data\<lparr>Components_subm := stringset_Elements componentSet\<rparr>"

subsection \<open>Events\<close>

text \<open>The five methods of \<open>eventreporter.Reporter\<close>.\<close>

datatype report =
  Started string
| Succeeded string
| Warned string
| Failed string
| EndedWith "error option"

text \<open>
  One constructor for each function of another package that broker.go calls, with the
  arguments of the call. Four of them get a discriminator, to name them in statements
  about the order of calls.
\<close>

datatype call =
  GetValidClusterSize string nat
| IsValidCIDR string
| ForCluster
| BrokerEnsure Config "string list" bool string
| ForOperator string string
| OperatorEnsure Config string string bool
| BrokerCREnsure Config string BrokerSpec
| is_NewFromFile: NewFromFile string
| NewFromCluster Config string string
| is_BackupIfExists: BackupIfExists string
| ValidateExistingGlobalNetworks Config string
| is_CreateGlobalnetConfigMap: CreateGlobalnetConfigMap Config bool string nat string
| is_WriteToFile: WriteToFile SubctlData string

text \<open>
  An event is a call of the reporter, or a call of a collaborator together with the
  error it returned.
\<close>

datatype event = Report report | Call call "error option"

subsection \<open>Collaborators\<close>

text \<open>
  The packages behind the orchestrator are not part of the sources. What each of
  their functions returns is a parameter: a run of \<open>Broker\<close> calls each of them at most
  once, so a function of the arguments describes every behaviour they can show.
  \<open>submarinerop.Ensure\<close> is handed the reporter, so it returns the reports it made as
  well. \<open>constants.OperatorNamespace\<close> is a parameter too.
\<close>

record env =
  restconfig_ForCluster :: "error + Config"
  globalnet_GetValidClusterSize :: "string \<Rightarrow> nat \<Rightarrow> nat \<times> error option"
  globalnet_IsValidCIDR :: "string \<Rightarrow> error option"
  broker_Ensure :: "Config \<Rightarrow> string list \<Rightarrow> bool \<Rightarrow> string \<Rightarrow> error option"
  image_ForOperator :: "string \<Rightarrow> string \<Rightarrow> error + string"
  constants_OperatorNamespace :: string
  submarinerop_Ensure :: "Config \<Rightarrow> string \<Rightarrow> string \<Rightarrow> bool \<Rightarrow> report list \<times> error option"
  brokercr_Ensure :: "Config \<Rightarrow> string \<Rightarrow> BrokerSpec \<Rightarrow> error option"
  datafile_NewFromFile :: "string \<Rightarrow> error + SubctlData"
  datafile_NewFromCluster :: "Config \<Rightarrow> string \<Rightarrow> string \<Rightarrow> error + SubctlData"
  datafile_BackupIfExists :: "string \<Rightarrow> error + string"
  globalnet_ValidateExistingGlobalNetworks :: "Config \<Rightarrow> string \<Rightarrow> error option"
  broker_CreateGlobalnetConfigMap :: "Config \<Rightarrow> bool \<Rightarrow> string \<Rightarrow> nat \<Rightarrow> string \<Rightarrow> error option"
  datafile_WriteToFile :: "SubctlData \<Rightarrow> string \<Rightarrow> error option"

subsection \<open>isValidComponents\<close>

fun isValidComponents_loop :: "stringset \<Rightarrow> string list \<Rightarrow> error option" where
  "isValidComponents_loop validComponentSet [] = None"
| "isValidComponents_loop validComponentSet (component # rest) =
     (if \<not> stringset_Contains validComponentSet component
      then Some (Error (''unknown component: '' @ component))
      else isValidComponents_loop validComponentSet rest)"

definition isValidComponents :: "stringset \<Rightarrow> error option" where
  "isValidComponents componentSet =
     (let validComponentSet = stringset_New ValidComponents in
      if stringset_Size componentSet < 1
      then Some (Error ''at least one component must be provided for deployment'')
      else isValidComponents_loop validComponentSet (stringset_Elements componentSet))"

subsection \<open>checkGlobalnetConfig\<close>

text \<open>Returns the options as the function leaves them, the calls it made, and its error.\<close>

definition checkGlobalnetConfig :: "env \<Rightarrow> BrokerOptions \<Rightarrow> BrokerOptions \<times> event list \<times> error option" where
  "checkGlobalnetConfig env options =
     (if \<not> GlobalnetEnabled (BrokerSpec options) then (options, [], None)
      else
        let cidr = GlobalnetCIDRRange (BrokerSpec options);
            clusterSize = DefaultGlobalnetClusterSize (BrokerSpec options);
            (clusterSize', err) = globalnet_GetValidClusterSize env cidr clusterSize;
            options' = options\<lparr>BrokerSpec := (BrokerSpec options)\<lparr>DefaultGlobalnetClusterSize := clusterSize'\<rparr>\<rparr>;
            t1 = [Call (GetValidClusterSize cidr clusterSize) err]
        in if err \<noteq> None then (options', t1, err)
           else
             let err2 = globalnet_IsValidCIDR env cidr
             in (options', t1 @ [Call (IsValidCIDR cidr) err2], err2))"

subsection \<open>deploy\<close>

definition deploy :: "env \<Rightarrow> BrokerOptions \<Rightarrow> Config \<Rightarrow> event list \<times> error option" where
  "deploy env options config =
     (let t0 = [Report (Started ''Setting up broker RBAC'')];
          err = broker_Ensure env config (Components (BrokerSpec options)) False (BrokerNamespace options);
          t1 = t0 @ [Call (BrokerEnsure config (Components (BrokerSpec options)) False (BrokerNamespace options)) err,
                     Report (EndedWith err)]
      in if err \<noteq> None then (t1, errors_Wrap err ''error setting up broker RBAC'')
      else
      let t2 = t1 @ [Report (Started ''Deploying the Submariner operator'')]
      in case image_ForOperator env (ImageVersion options) (Repository options) of
        Inl e \<Rightarrow>
          (t2 @ [Call (ForOperator (ImageVersion options) (Repository options)) (Some e)],
           errors_Wrap (Some e) ''error getting Operator image'')
      | Inr operatorImage \<Rightarrow> (
      let t3 = t2 @ [Call (ForOperator (ImageVersion options) (Repository options)) None];
          (reports, err) = submarinerop_Ensure env config (constants_OperatorNamespace env) operatorImage
                             (OperatorDebug options);
          t4 = t3 @ [Call (OperatorEnsure config (constants_OperatorNamespace env) operatorImage
                             (OperatorDebug options)) err]
                  @ map Report reports @ [Report (EndedWith err)]
      in if err \<noteq> None then (t4, errors_Wrap err ''error deploying the operator'')
      else
      let t5 = t4 @ [Report (Started ''Deploying the broker'')];
          err = brokercr_Ensure env config (BrokerNamespace options) (BrokerSpec options);
          t6 = t5 @ [Call (BrokerCREnsure config (BrokerNamespace options) (BrokerSpec options)) err]
      in if err = None then (t6 @ [Report (Succeeded ''The broker has been deployed'')], None)
         else (t6 @ [Report (Failed ''Broker deployment failed'')],
               errors_Wrap err ''error deploying the broker'')))"

subsection \<open>Broker\<close>

text \<open>
  Returns the options as \<open>Broker\<close> leaves them (the caller holds the pointer), the
  events in the order they happened, and the error returned.
\<close>

definition Broker :: "env \<Rightarrow> BrokerOptions \<Rightarrow> BrokerOptions \<times> event list \<times> error option" where
  "Broker env options0 =
     (let componentSet0 = stringset_New (Components (BrokerSpec options0));
          err = isValidComponents componentSet0
      in if err \<noteq> None then (options0, [], errors_Wrap err ''invalid components parameter'')
      else
      let componentSet = (if GlobalnetEnabled (BrokerSpec options0)
                          then stringset_Add componentSet0 components_Globalnet else componentSet0);
          (options1, t1, err) = checkGlobalnetConfig env options0
      in if err \<noteq> None then (options1, t1, errors_Wrap err ''invalid GlobalCIDR configuration'')
      else
      case restconfig_ForCluster env of
        Inl e \<Rightarrow>
          (options1, t1 @ [Call ForCluster (Some e)],
           errors_Wrap (Some e) ''the provided kubeconfig is invalid'')
      | Inr config \<Rightarrow> (
      let t2 = t1 @ [Call ForCluster None];
          (td, err) = deploy env options1 config;
          t3 = t2 @ td
      in if err \<noteq> None then (options1, t3, err)
      else
      let t4 = t3 @ [Report (Started (''Creating '' @ brokerDetailsFilename @ '' file''))];
          (options, t5) =
            (if IpsecSubmFile options1 = ''''
             then (case datafile_NewFromFile env brokerDetailsFilename of
                     Inr loaded \<Rightarrow>
                       (options1\<lparr>IpsecSubmFile := brokerDetailsFilename\<rparr>,
                        t4 @ [Call (NewFromFile brokerDetailsFilename) None,
                              Report (Warned (''Reusing IPsec PSK from existing '' @ brokerDetailsFilename))])
                   | Inl e \<Rightarrow>
                       (options1,
                        t4 @ [Call (NewFromFile brokerDetailsFilename) (Some e),
                              Report (Succeeded (''A new IPsec PSK will be generated for ''
                                                  @ brokerDetailsFilename))]))
             else (options1, t4))
      in case datafile_NewFromCluster env config (BrokerNamespace options) (IpsecSubmFile options) of
        Inl e \<Rightarrow>
          (options,
           t5 @ [Call (NewFromCluster config (BrokerNamespace options) (IpsecSubmFile options)) (Some e)],
           errors_Wrap (Some e) ''error retrieving preparing the subm data file'')
      | Inr subctlData0 \<Rightarrow> (
      let t6 = t5 @ [Call (NewFromCluster config (BrokerNamespace options) (IpsecSubmFile options)) None]
      in case datafile_BackupIfExists env brokerDetailsFilename of
        Inl e \<Rightarrow>
          (options, t6 @ [Call (BackupIfExists brokerDetailsFilename) (Some e)],
           errors_Wrap (Some e) ''error backing up the brokerfile'')
      | Inr newFilename \<Rightarrow> (
      let t7 = t6 @ [Call (BackupIfExists brokerDetailsFilename) None]
                  @ (if newFilename \<noteq> ''''
                     then [Report (Succeeded (''Backed up previous '' @ brokerDetailsFilename
                                               @ '' to '' @ newFilename))]
                     else []);
          subctlData1 = subctlData0\<lparr>ServiceDiscovery :=
                           stringset_Contains componentSet components_ServiceDiscovery\<rparr>;
          subctlData2 = SetComponents subctlData1 componentSet;
          subctlData = (if length (DefaultCustomDomains (BrokerSpec options)) > 0
                        then subctlData2\<lparr>CustomDomains := Some (DefaultCustomDomains (BrokerSpec options))\<rparr>
                        else subctlData2);
          (t8, err) =
            (if GlobalnetEnabled (BrokerSpec options)
             then (let err = globalnet_ValidateExistingGlobalNetworks env config (BrokerNamespace options)
                   in (t7 @ [Call (ValidateExistingGlobalNetworks config (BrokerNamespace options)) err], err))
             else (t7, None))
      in if err \<noteq> None then (options, t8, errors_Wrap err ''error validating existing globalCIDR configmap'')
      else
      let err = broker_CreateGlobalnetConfigMap env config (GlobalnetEnabled (BrokerSpec options))
                  (GlobalnetCIDRRange (BrokerSpec options))
                  (DefaultGlobalnetClusterSize (BrokerSpec options)) (BrokerNamespace options);
          t9 = t8 @ [Call (CreateGlobalnetConfigMap config (GlobalnetEnabled (BrokerSpec options))
                             (GlobalnetCIDRRange (BrokerSpec options))
                             (DefaultGlobalnetClusterSize (BrokerSpec options)) (BrokerNamespace options)) err]
      in if err \<noteq> None then (options, t9, errors_Wrap err ''error creating globalCIDR configmap on Broker'')
      else
      let err = datafile_WriteToFile env subctlData brokerDetailsFilename
      in (options,
          t9 @ [Call (WriteToFile subctlData brokerDetailsFilename) err, Report (EndedWith err)],
          errors_Wrap err ''error writing the broker information'')))))"

subsection \<open>Reading a trace\<close>

fun calls_of :: "event list \<Rightarrow> call list" where
  "calls_of [] = []"
| "calls_of (Report r # tr) = calls_of tr"
| "calls_of (Call c res # tr) = c # calls_of tr"

fun reports_of :: "event list \<Rightarrow> report list" where
  "reports_of [] = []"
| "reports_of (Report r # tr) = r # reports_of tr"
| "reports_of (Call c res # tr) = reports_of tr"

text \<open>
  A report announces a failure when it is \<open>EndedWith\<close> a non-nil error, or \<open>Failed\<close>.
\<close>

fun is_failure_report :: "report \<Rightarrow> bool" where
  "is_failure_report (EndedWith (Some e)) = True"
| "is_failure_report (Failed message) = True"
| "is_failure_report r = False"

text \<open>The specs that the trace hands to \<open>brokercr.Ensure\<close>, and the descriptors it
  hands to \<open>WriteToFile\<close>.\<close>

fun requested_specs :: "event list \<Rightarrow> BrokerSpec list" where
  "requested_specs [] = []"
| "requested_specs (Call (BrokerCREnsure config namespace spec) res # tr) = spec # requested_specs tr"
| "requested_specs (ev # tr) = requested_specs tr"

fun written_descriptors :: "event list \<Rightarrow> SubctlData list" where
  "written_descriptors [] = []"
| "written_descriptors (Call (WriteToFile subctlData filename) res # tr) =
     subctlData # written_descriptors tr"
| "written_descriptors (ev # tr) = written_descriptors tr"

text \<open>The position of each collaborator in the text of \<open>Broker\<close> and \<open>deploy\<close>.\<close>

fun phase_rank :: "call \<Rightarrow> nat" where
  "phase_rank (GetValidClusterSize cidr clusterSize) = 0"
| "phase_rank (IsValidCIDR cidr) = 1"
| "phase_rank ForCluster = 2"
| "phase_rank (BrokerEnsure config components crds namespace) = 3"
| "phase_rank (ForOperator version repository) = 4"
| "phase_rank (OperatorEnsure config namespace operatorImage debug) = 5"
| "phase_rank (BrokerCREnsure config namespace spec) = 6"
| "phase_rank (NewFromFile filename) = 7"
| "phase_rank (NewFromCluster config namespace filename) = 8"
| "phase_rank (BackupIfExists filename) = 9"
| "phase_rank (ValidateExistingGlobalNetworks config namespace) = 10"
| "phase_rank (CreateGlobalnetConfigMap config enabled cidr clusterSize namespace) = 11"
| "phase_rank (WriteToFile data filename) = 12"

text \<open>
  \<open>occurs_before P Q tr\<close>: the trace makes a call satisfying \<open>Q\<close>, and before the first
  such call it makes one satisfying \<open>P\<close>.
\<close>

fun occurs_before :: "(call \<Rightarrow> bool) \<Rightarrow> (call \<Rightarrow> bool) \<Rightarrow> event list \<Rightarrow> bool" where
  "occurs_before P Q [] = False"
| "occurs_before P Q (Report r # tr) = occurs_before P Q tr"
| "occurs_before P Q (Call c res # tr) =
     (if Q c then False
      else if P c then list_ex Q (calls_of tr)
      else occurs_before P Q tr)"

text \<open>The part of a trace from its first call satisfying \<open>P\<close> on.\<close>

fun from_call :: "(call \<Rightarrow> bool) \<Rightarrow> event list \<Rightarrow> event list" where
  "from_call P [] = []"
| "from_call P (Report r # tr) = from_call P tr"
| "from_call P (Call c res # tr) = (if P c then Call c res # tr else from_call P tr)"

text \<open>
  \<open>fail_stop tr\<close>: no call follows a call that returned an error, the load of an earlier
  descriptor by \<open>NewFromFile\<close> apart.
\<close>

fun fail_stop :: "event list \<Rightarrow> bool" where
  "fail_stop [] = True"
| "fail_stop (Report r # tr) = fail_stop tr"
| "fail_stop (Call c None # tr) = fail_stop tr"
| "fail_stop (Call c (Some e) # tr) = ((is_NewFromFile c \<or> calls_of tr = []) \<and> fail_stop tr)"

text \<open>The calls that returned an error, the load by \<open>NewFromFile\<close> apart.\<close>

fun failures :: "event list \<Rightarrow> call list" where
  "failures [] = []"
| "failures (Report r # tr) = failures tr"
| "failures (Call c None # tr) = failures tr"
| "failures (Call c (Some e) # tr) = (if is_NewFromFile c then failures tr else c # failures tr)"

subsection \<open>Named parts of a run\<close>

text \<open>
  The lemmas below describe a run of \<open>Broker\<close> path by path. These definitions name
  the pieces the paths are made of: each is a fragment of \<open>Broker\<close> or \<open>deploy\<close>,
  and the lemmas \<open>deploy_cases\<close> and \<open>Broker_cases\<close> prove that the functions are
  composed of them.
\<close>

text \<open>The component set after lines 56 and 62 to 64 of \<open>Broker\<close>.\<close>

definition componentSet_of :: "BrokerOptions \<Rightarrow> stringset" where
  "componentSet_of options =
     (if GlobalnetEnabled (BrokerSpec options)
      then stringset_Add (stringset_New (Components (BrokerSpec options))) components_Globalnet
      else stringset_New (Components (BrokerSpec options)))"

text \<open>The options and the calls of a \<open>checkGlobalnetConfig\<close> that returns nil.\<close>

definition resolved_options :: "env \<Rightarrow> BrokerOptions \<Rightarrow> BrokerOptions" where
  "resolved_options env options =
     (if GlobalnetEnabled (BrokerSpec options)
      then options\<lparr>BrokerSpec := (BrokerSpec options)\<lparr>DefaultGlobalnetClusterSize :=
             fst (globalnet_GetValidClusterSize env (GlobalnetCIDRRange (BrokerSpec options))
                    (DefaultGlobalnetClusterSize (BrokerSpec options)))\<rparr>\<rparr>
      else options)"

definition check_events :: "BrokerOptions \<Rightarrow> event list" where
  "check_events options =
     (if GlobalnetEnabled (BrokerSpec options)
      then [Call (GetValidClusterSize (GlobalnetCIDRRange (BrokerSpec options))
                    (DefaultGlobalnetClusterSize (BrokerSpec options))) None,
            Call (IsValidCIDR (GlobalnetCIDRRange (BrokerSpec options))) None]
      else [])"

text \<open>The three phases of \<open>deploy\<close>, each with the error its collaborator returned.\<close>

definition rbac_events :: "Config \<Rightarrow> BrokerOptions \<Rightarrow> error option \<Rightarrow> event list" where
  "rbac_events config options err =
     [Report (Started ''Setting up broker RBAC''),
      Call (BrokerEnsure config (Components (BrokerSpec options)) False (BrokerNamespace options)) err,
      Report (EndedWith err)]"

definition operator_events ::
  "env \<Rightarrow> Config \<Rightarrow> BrokerOptions \<Rightarrow> string \<Rightarrow> report list \<Rightarrow> error option \<Rightarrow> event list" where
  "operator_events env config options operatorImage reports err =
     [Report (Started ''Deploying the Submariner operator''),
      Call (ForOperator (ImageVersion options) (Repository options)) None,
      Call (OperatorEnsure config (constants_OperatorNamespace env) operatorImage (OperatorDebug options)) err]
     @ map Report reports @ [Report (EndedWith err)]"

definition brokercr_events :: "Config \<Rightarrow> BrokerOptions \<Rightarrow> error option \<Rightarrow> event list" where
  "brokercr_events config options err =
     [Report (Started ''Deploying the broker''),
      Call (BrokerCREnsure config (BrokerNamespace options) (BrokerSpec options)) err,
      Report (if err = None then Succeeded ''The broker has been deployed''
              else Failed ''Broker deployment failed'')]"

text \<open>Everything up to the return of a \<open>deploy\<close> that succeeded.\<close>

definition deployed_events ::
  "env \<Rightarrow> BrokerOptions \<Rightarrow> Config \<Rightarrow> string \<Rightarrow> report list \<Rightarrow> event list" where
  "deployed_events env options config operatorImage reports =
     check_events options @ [Call ForCluster None]
     @ rbac_events config (resolved_options env options) None
     @ operator_events env config (resolved_options env options) operatorImage reports None
     @ brokercr_events config (resolved_options env options) None"

text \<open>Lines 79 to 89 of \<open>Broker\<close>: the options they leave and the events they make.\<close>

definition reuse_options :: "env \<Rightarrow> BrokerOptions \<Rightarrow> BrokerOptions" where
  "reuse_options env options =
     (if IpsecSubmFile options = ''''
      then (case datafile_NewFromFile env brokerDetailsFilename of
              Inr loaded \<Rightarrow> options\<lparr>IpsecSubmFile := brokerDetailsFilename\<rparr>
            | Inl e \<Rightarrow> options)
      else options)"

definition reuse_events :: "env \<Rightarrow> BrokerOptions \<Rightarrow> event list" where
  "reuse_events env options =
     Report (Started (''Creating '' @ brokerDetailsFilename @ '' file'')) #
     (if IpsecSubmFile options = ''''
      then (case datafile_NewFromFile env brokerDetailsFilename of
              Inr loaded \<Rightarrow>
                [Call (NewFromFile brokerDetailsFilename) None,
                 Report (Warned (''Reusing IPsec PSK from existing '' @ brokerDetailsFilename))]
            | Inl e \<Rightarrow>
                [Call (NewFromFile brokerDetailsFilename) (Some e),
                 Report (Succeeded (''A new IPsec PSK will be generated for '' @ brokerDetailsFilename))])
      else [])"

text \<open>Lines 96 to 103: a backup that succeeded.\<close>

definition backup_events :: "string \<Rightarrow> event list" where
  "backup_events newFilename =
     Call (BackupIfExists brokerDetailsFilename) None #
     (if newFilename \<noteq> ''''
      then [Report (Succeeded (''Backed up previous '' @ brokerDetailsFilename @ '' to '' @ newFilename))]
      else [])"

text \<open>Lines 105 to 110: the descriptor that is written.\<close>

definition descriptor :: "BrokerOptions \<Rightarrow> SubctlData \<Rightarrow> SubctlData" where
  "descriptor options subctlData0 =
     (let subctlData1 = subctlData0\<lparr>ServiceDiscovery :=
                          stringset_Contains (componentSet_of options) components_ServiceDiscovery\<rparr>;
          subctlData2 = SetComponents subctlData1 (componentSet_of options)
      in if length (DefaultCustomDomains (BrokerSpec options)) > 0
         then subctlData2\<lparr>CustomDomains := Some (DefaultCustomDomains (BrokerSpec options))\<rparr>
         else subctlData2)"

text \<open>Lines 112 to 121.\<close>

definition validate_events :: "Config \<Rightarrow> BrokerOptions \<Rightarrow> error option \<Rightarrow> event list" where
  "validate_events config options err =
     (if GlobalnetEnabled (BrokerSpec options)
      then [Call (ValidateExistingGlobalNetworks config (BrokerNamespace options)) err]
      else [])"

definition create_event :: "Config \<Rightarrow> BrokerOptions \<Rightarrow> error option \<Rightarrow> event" where
  "create_event config options err =
     Call (CreateGlobalnetConfigMap config (GlobalnetEnabled (BrokerSpec options))
             (GlobalnetCIDRRange (BrokerSpec options))
             (DefaultGlobalnetClusterSize (BrokerSpec options)) (BrokerNamespace options)) err"

subsection \<open>Sample collaborators and requests\<close>

text \<open>
  A cluster on which every step succeeds and no descriptor file exists yet; the
  operator installation reports one success message of its own.
\<close>

definition env_ok :: env where
  "env_ok = \<lparr>
     restconfig_ForCluster = Inr ''https://broker.example:6443'',
     globalnet_GetValidClusterSize = (\<lambda>cidr clusterSize. (if clusterSize = 0 then 65536 else clusterSize, None)),
     globalnet_IsValidCIDR = (\<lambda>cidr. None),
     broker_Ensure = (\<lambda>config components crds namespace. None),
     image_ForOperator = (\<lambda>version repo. Inr (repo @ ''/submariner-operator:'' @ version)),
     constants_OperatorNamespace = ''submariner-operator'',
     submarinerop_Ensure = (\<lambda>config namespace operatorImage debug. ([Succeeded ''Created operator CRDs''], None)),
     brokercr_Ensure = (\<lambda>config namespace spec. None),
     datafile_NewFromFile = (\<lambda>filename. Inl (Error ''no such file'')),
     datafile_NewFromCluster = (\<lambda>config namespace file.
        Inr \<lparr>BrokerURL = config, IPSecPSK = (if file = [] then ''fresh-psk'' else ''psk-of-'' @ file),
             ServiceDiscovery = False, Components_subm = [], CustomDomains = None\<rparr>),
     datafile_BackupIfExists = (\<lambda>filename. Inr []),
     globalnet_ValidateExistingGlobalNetworks = (\<lambda>config namespace. None),
     broker_CreateGlobalnetConfigMap = (\<lambda>config enabled cidr clusterSize namespace. None),
     datafile_WriteToFile = (\<lambda>data filename. None)\<rparr>"

text \<open>The same cluster when the descriptor of an earlier run is in the working directory.\<close>

definition env_retry :: env where
  "env_retry = env_ok\<lparr>
     datafile_NewFromFile := (\<lambda>filename.
        Inr \<lparr>BrokerURL = ''https://broker.example:6443'', IPSecPSK = ''fresh-psk'',
             ServiceDiscovery = False, Components_subm = [''connectivity''], CustomDomains = None\<rparr>),
     datafile_BackupIfExists := (\<lambda>filename. Inr (filename @ ''.2021_10_01_12_00_00''))\<rparr>"

definition options_connectivity :: BrokerOptions where
  "options_connectivity = \<lparr>
     OperatorDebug = False, IpsecSubmFile = [], GlobalCIDRConfigMap = None,
     Repository = ''quay.io/submariner'', ImageVersion = ''0.12.0'',
     BrokerNamespace = ''submariner-k8s-broker'',
     BrokerSpec = \<lparr>Components = [''connectivity''], DefaultCustomDomains = [],
                   GlobalnetEnabled = False, GlobalnetCIDRRange = [],
                   DefaultGlobalnetClusterSize = 0\<rparr>\<rparr>"

definition options_globalnet :: BrokerOptions where
  "options_globalnet = options_connectivity\<lparr>
     BrokerSpec := \<lparr>Components = [''connectivity''], DefaultCustomDomains = [],
                    GlobalnetEnabled = True, GlobalnetCIDRRange = ''240.0.0.0/8'',
                    DefaultGlobalnetClusterSize = 0\<rparr>\<rparr>"

text \<open>Variations: a cluster that refuses the RBAC objects, and one whose operator image
  cannot be resolved.\<close>

definition env_rbac_denied :: env where
  "env_rbac_denied = env_ok\<lparr>
     broker_Ensure := (\<lambda>config components crds namespace. Some (Error ''forbidden''))\<rparr>"

definition env_no_image :: env where
  "env_no_image = env_ok\<lparr>
     image_ForOperator := (\<lambda>version repo. Inl (Error ''invalid image version''))\<rparr>"

definition env_no_kubeconfig :: env where
  "env_no_kubeconfig = env_ok\<lparr>restconfig_ForCluster := Inl (Error ''no such context'')\<rparr>"

text \<open>Requests: an unknown component, globalnet listed by the user, and a cluster size
  given while globalnet is off.\<close>

definition options_bogus :: BrokerOptions where
  "options_bogus = options_connectivity\<lparr>
     BrokerSpec := \<lparr>Components = [''bogus''], DefaultCustomDomains = [],
                    GlobalnetEnabled = False, GlobalnetCIDRRange = [],
                    DefaultGlobalnetClusterSize = 0\<rparr>\<rparr>"

definition options_globalnet_listed :: BrokerOptions where
  "options_globalnet_listed = options_connectivity\<lparr>
     BrokerSpec := \<lparr>Components = [''connectivity'', ''globalnet''], DefaultCustomDomains = [],
                    GlobalnetEnabled = True, GlobalnetCIDRRange = ''240.0.0.0/8'',
                    DefaultGlobalnetClusterSize = 0\<rparr>\<rparr>"

definition options_sized :: BrokerOptions where
  "options_sized = options_connectivity\<lparr>
     BrokerSpec := \<lparr>Components = [''connectivity''], DefaultCustomDomains = [],
                    GlobalnetEnabled = False, GlobalnetCIDRRange = [],
                    DefaultGlobalnetClusterSize = 8192\<rparr>\<rparr>"

section \<open>The paths of a run\<close>

lemma deploy_cases [consumes 1, case_names rbac image operator brokercr deployed]:
  assumes "deploy env options config = (td, r)"
  obtains
    (rbac) e where
      "broker_Ensure env config (Components (BrokerSpec options)) False (BrokerNamespace options) = Some e"
      "td = rbac_events config options (Some e)"
      "r = Some (Wrapped e ''error setting up broker RBAC'')"
  | (image) e where
      "image_ForOperator env (ImageVersion options) (Repository options) = Inl e"
      "td = rbac_events config options None
            @ [Report (Started ''Deploying the Submariner operator''),
               Call (ForOperator (ImageVersion options) (Repository options)) (Some e)]"
      "r = Some (Wrapped e ''error getting Operator image'')"
  | (operator) operatorImage reports e where
      "submarinerop_Ensure env config (constants_OperatorNamespace env) operatorImage
         (OperatorDebug options) = (reports, Some e)"
      "td = rbac_events config options None
            @ operator_events env config options operatorImage reports (Some e)"
      "r = Some (Wrapped e ''error deploying the operator'')"
  | (brokercr) operatorImage reports e where
      "brokercr_Ensure env config (BrokerNamespace options) (BrokerSpec options) = Some e"
      "td = rbac_events config options None
            @ operator_events env config options operatorImage reports None
            @ brokercr_events config options (Some e)"
      "r = Some (Wrapped e ''error deploying the broker'')"
  | (deployed) operatorImage reports where
      "td = rbac_events config options None
            @ operator_events env config options operatorImage reports None
            @ brokercr_events config options None"
      "r = None"
proof (cases "broker_Ensure env config (Components (BrokerSpec options)) False (BrokerNamespace options)")
  case (Some e)
  then have "deploy env options config
             = (rbac_events config options (Some e), Some (Wrapped e ''error setting up broker RBAC''))"
    by (simp add: deploy_def Let_def rbac_events_def)
  with assms have "td = rbac_events config options (Some e)"
    "r = Some (Wrapped e ''error setting up broker RBAC'')" by auto
  with Some show thesis by (rule rbac)
next
  case rbac_ok: None
  show thesis
  proof (cases "image_ForOperator env (ImageVersion options) (Repository options)")
    case (Inl e)
    with rbac_ok have "deploy env options config
             = (rbac_events config options None
                @ [Report (Started ''Deploying the Submariner operator''),
                   Call (ForOperator (ImageVersion options) (Repository options)) (Some e)],
                Some (Wrapped e ''error getting Operator image''))"
      by (simp add: deploy_def Let_def rbac_events_def)
    with assms have "td = rbac_events config options None
                @ [Report (Started ''Deploying the Submariner operator''),
                   Call (ForOperator (ImageVersion options) (Repository options)) (Some e)]"
      "r = Some (Wrapped e ''error getting Operator image'')" by auto
    with Inl show thesis by (rule image)
  next
    case (Inr operatorImage)
    obtain reports err where op:
      "submarinerop_Ensure env config (constants_OperatorNamespace env) operatorImage
         (OperatorDebug options) = (reports, err)"
      by (cases "submarinerop_Ensure env config (constants_OperatorNamespace env) operatorImage
         (OperatorDebug options)") blast
    show thesis
    proof (cases err)
      case (Some e)
      with rbac_ok Inr op have "deploy env options config
             = (rbac_events config options None
                @ operator_events env config options operatorImage reports (Some e),
                Some (Wrapped e ''error deploying the operator''))"
        by (simp add: deploy_def Let_def rbac_events_def operator_events_def)
      with assms have "td = rbac_events config options None
                @ operator_events env config options operatorImage reports (Some e)"
        "r = Some (Wrapped e ''error deploying the operator'')" by auto
      with op[unfolded Some] show thesis by (rule operator)
    next
      case op_ok: None
      show thesis
      proof (cases "brokercr_Ensure env config (BrokerNamespace options) (BrokerSpec options)")
        case (Some e)
        with rbac_ok Inr op op_ok have "deploy env options config
             = (rbac_events config options None
                @ operator_events env config options operatorImage reports None
                @ brokercr_events config options (Some e),
                Some (Wrapped e ''error deploying the broker''))"
          by (simp add: deploy_def Let_def rbac_events_def operator_events_def brokercr_events_def)
        with assms have "td = rbac_events config options None
                @ operator_events env config options operatorImage reports None
                @ brokercr_events config options (Some e)"
          "r = Some (Wrapped e ''error deploying the broker'')" by auto
        with Some show thesis by (rule brokercr)
      next
        case None
        with rbac_ok Inr op op_ok have "deploy env options config
             = (rbac_events config options None
                @ operator_events env config options operatorImage reports None
                @ brokercr_events config options None, None)"
          by (simp add: deploy_def Let_def rbac_events_def operator_events_def brokercr_events_def)
        with assms have "td = rbac_events config options None
                @ operator_events env config options operatorImage reports None
                @ brokercr_events config options None" "r = None" by auto
        then show thesis by (rule deployed)
      qed
    qed
  qed
qed

lemma checkGlobalnetConfig_cases [consumes 1, case_names disabled size cidr checked]:
  assumes "checkGlobalnetConfig env options = (options1, t1, r)"
  obtains
    (disabled) "\<not> GlobalnetEnabled (BrokerSpec options)"
      "options1 = options" "t1 = []" "r = None"
  | (size) n e where "GlobalnetEnabled (BrokerSpec options)"
      "globalnet_GetValidClusterSize env (GlobalnetCIDRRange (BrokerSpec options))
         (DefaultGlobalnetClusterSize (BrokerSpec options)) = (n, Some e)"
      "options1 = resolved_options env options"
      "t1 = [Call (GetValidClusterSize (GlobalnetCIDRRange (BrokerSpec options))
                     (DefaultGlobalnetClusterSize (BrokerSpec options))) (Some e)]"
      "r = Some e"
  | (cidr) e where "GlobalnetEnabled (BrokerSpec options)"
      "globalnet_IsValidCIDR env (GlobalnetCIDRRange (BrokerSpec options)) = Some e"
      "options1 = resolved_options env options"
      "t1 = [Call (GetValidClusterSize (GlobalnetCIDRRange (BrokerSpec options))
                     (DefaultGlobalnetClusterSize (BrokerSpec options))) None,
             Call (IsValidCIDR (GlobalnetCIDRRange (BrokerSpec options))) (Some e)]"
      "r = Some e"
  | (checked) "GlobalnetEnabled (BrokerSpec options)"
      "options1 = resolved_options env options" "t1 = check_events options" "r = None"
proof (cases "GlobalnetEnabled (BrokerSpec options)")
  case False
  then have "checkGlobalnetConfig env options = (options, [], None)"
    by (simp add: checkGlobalnetConfig_def)
  with assms have "options1 = options" "t1 = []" "r = None" by auto
  with False show thesis by (rule disabled)
next
  case True
  obtain n err where gv:
    "globalnet_GetValidClusterSize env (GlobalnetCIDRRange (BrokerSpec options))
       (DefaultGlobalnetClusterSize (BrokerSpec options)) = (n, err)"
    by (cases "globalnet_GetValidClusterSize env (GlobalnetCIDRRange (BrokerSpec options))
       (DefaultGlobalnetClusterSize (BrokerSpec options))") blast
  show thesis
  proof (cases err)
    case (Some e)
    with True gv have "checkGlobalnetConfig env options
        = (resolved_options env options,
           [Call (GetValidClusterSize (GlobalnetCIDRRange (BrokerSpec options))
                     (DefaultGlobalnetClusterSize (BrokerSpec options))) (Some e)], Some e)"
      by (simp add: checkGlobalnetConfig_def resolved_options_def Let_def)
    with assms have "options1 = resolved_options env options"
      "t1 = [Call (GetValidClusterSize (GlobalnetCIDRRange (BrokerSpec options))
                     (DefaultGlobalnetClusterSize (BrokerSpec options))) (Some e)]"
      "r = Some e" by auto
    with True gv[unfolded Some] show thesis by (rule size)
  next
    case gv_ok: None
    show thesis
    proof (cases "globalnet_IsValidCIDR env (GlobalnetCIDRRange (BrokerSpec options))")
      case (Some e)
      with True gv gv_ok have "checkGlobalnetConfig env options
        = (resolved_options env options,
           [Call (GetValidClusterSize (GlobalnetCIDRRange (BrokerSpec options))
                     (DefaultGlobalnetClusterSize (BrokerSpec options))) None,
            Call (IsValidCIDR (GlobalnetCIDRRange (BrokerSpec options))) (Some e)], Some e)"
        by (simp add: checkGlobalnetConfig_def resolved_options_def Let_def)
      with assms have "options1 = resolved_options env options"
        "t1 = [Call (GetValidClusterSize (GlobalnetCIDRRange (BrokerSpec options))
                     (DefaultGlobalnetClusterSize (BrokerSpec options))) None,
               Call (IsValidCIDR (GlobalnetCIDRRange (BrokerSpec options))) (Some e)]"
        "r = Some e" by auto
      with True Some show thesis by (rule cidr)
    next
      case None
      with True gv gv_ok have "checkGlobalnetConfig env options
        = (resolved_options env options, check_events options, None)"
        by (simp add: checkGlobalnetConfig_def resolved_options_def check_events_def Let_def)
      with assms have "options1 = resolved_options env options"
        "t1 = check_events options" "r = None" by auto
      with True show thesis by (rule checked)
    qed
  qed
qed

lemma checkGlobalnetConfig_ok:
  assumes "checkGlobalnetConfig env options = (options1, t1, None)"
  shows "options1 = resolved_options env options \<and> t1 = check_events options"
  using assms
  by (cases rule: checkGlobalnetConfig_cases) (simp_all add: resolved_options_def check_events_def)

lemma resolved_options_frame [simp]:
  "OperatorDebug (resolved_options env options) = OperatorDebug options"
  "IpsecSubmFile (resolved_options env options) = IpsecSubmFile options"
  "GlobalCIDRConfigMap (resolved_options env options) = GlobalCIDRConfigMap options"
  "Repository (resolved_options env options) = Repository options"
  "ImageVersion (resolved_options env options) = ImageVersion options"
  "BrokerNamespace (resolved_options env options) = BrokerNamespace options"
  "Components (BrokerSpec (resolved_options env options)) = Components (BrokerSpec options)"
  "DefaultCustomDomains (BrokerSpec (resolved_options env options))
     = DefaultCustomDomains (BrokerSpec options)"
  "GlobalnetEnabled (BrokerSpec (resolved_options env options)) = GlobalnetEnabled (BrokerSpec options)"
  "GlobalnetCIDRRange (BrokerSpec (resolved_options env options))
     = GlobalnetCIDRRange (BrokerSpec options)"
  by (simp_all add: resolved_options_def)

lemma reuse_options_frame [simp]:
  "OperatorDebug (reuse_options env options) = OperatorDebug options"
  "GlobalCIDRConfigMap (reuse_options env options) = GlobalCIDRConfigMap options"
  "Repository (reuse_options env options) = Repository options"
  "ImageVersion (reuse_options env options) = ImageVersion options"
  "BrokerNamespace (reuse_options env options) = BrokerNamespace options"
  "BrokerSpec (reuse_options env options) = BrokerSpec options"
  by (simp_all add: reuse_options_def split: sum.splits)

lemma componentSet_of_resolved [simp]:
  "componentSet_of (resolved_options env options) = componentSet_of options"
  by (simp add: componentSet_of_def)

lemma Broker_invalid:
  assumes "isValidComponents (stringset_New (Components (BrokerSpec options))) = Some e"
  shows "Broker env options = (options, [], Some (Wrapped e ''invalid components parameter''))"
  using assms by (simp add: Broker_def Let_def)

lemma Broker_check_failed:
  assumes "isValidComponents (stringset_New (Components (BrokerSpec options))) = None"
    and "checkGlobalnetConfig env options = (options1, t1, Some e)"
  shows "Broker env options = (options1, t1, Some (Wrapped e ''invalid GlobalCIDR configuration''))"
  using assms by (simp add: Broker_def Let_def)

lemma Broker_kubeconfig:
  assumes "isValidComponents (stringset_New (Components (BrokerSpec options))) = None"
    and "checkGlobalnetConfig env options = (options1, t1, None)"
    and "restconfig_ForCluster env = Inl e"
  shows "Broker env options
         = (options1, t1 @ [Call ForCluster (Some e)],
            Some (Wrapped e ''the provided kubeconfig is invalid''))"
  using assms by (simp add: Broker_def Let_def)

lemma Broker_deploy_failed:
  assumes "isValidComponents (stringset_New (Components (BrokerSpec options))) = None"
    and "checkGlobalnetConfig env options = (options1, t1, None)"
    and "restconfig_ForCluster env = Inr config"
    and "deploy env options1 config = (td, Some e)"
  shows "Broker env options = (options1, t1 @ [Call ForCluster None] @ td, Some e)"
  using assms by (simp add: Broker_def Let_def)

lemma Broker_cluster:
  assumes "isValidComponents (stringset_New (Components (BrokerSpec options))) = None"
    and "checkGlobalnetConfig env options = (options1, t1, None)"
    and "restconfig_ForCluster env = Inr config"
    and "deploy env options1 config = (td, None)"
    and "datafile_NewFromCluster env config (BrokerNamespace options1)
           (IpsecSubmFile (reuse_options env options1)) = Inl e"
  shows "Broker env options
         = (reuse_options env options1,
            t1 @ [Call ForCluster None] @ td @ reuse_events env options1
            @ [Call (NewFromCluster config (BrokerNamespace options1)
                       (IpsecSubmFile (reuse_options env options1))) (Some e)],
            Some (Wrapped e ''error retrieving preparing the subm data file''))"
  using assms
  by (cases "IpsecSubmFile options1 = []"; cases "datafile_NewFromFile env brokerDetailsFilename";
      simp add: Broker_def Let_def reuse_options_def reuse_events_def)

lemma Broker_backup:
  assumes "isValidComponents (stringset_New (Components (BrokerSpec options))) = None"
    and "checkGlobalnetConfig env options = (options1, t1, None)"
    and "restconfig_ForCluster env = Inr config"
    and "deploy env options1 config = (td, None)"
    and "datafile_NewFromCluster env config (BrokerNamespace options1)
           (IpsecSubmFile (reuse_options env options1)) = Inr subctlData0"
    and "datafile_BackupIfExists env brokerDetailsFilename = Inl e"
  shows "Broker env options
         = (reuse_options env options1,
            t1 @ [Call ForCluster None] @ td @ reuse_events env options1
            @ [Call (NewFromCluster config (BrokerNamespace options1)
                       (IpsecSubmFile (reuse_options env options1))) None,
               Call (BackupIfExists brokerDetailsFilename) (Some e)],
            Some (Wrapped e ''error backing up the brokerfile''))"
  using assms
  by (cases "IpsecSubmFile options1 = []"; cases "datafile_NewFromFile env brokerDetailsFilename";
      simp add: Broker_def Let_def reuse_options_def reuse_events_def)

lemma Broker_validate:
  assumes "isValidComponents (stringset_New (Components (BrokerSpec options))) = None"
    and "checkGlobalnetConfig env options = (options1, t1, None)"
    and "restconfig_ForCluster env = Inr config"
    and "deploy env options1 config = (td, None)"
    and "datafile_NewFromCluster env config (BrokerNamespace options1)
           (IpsecSubmFile (reuse_options env options1)) = Inr subctlData0"
    and "datafile_BackupIfExists env brokerDetailsFilename = Inr newFilename"
    and "GlobalnetEnabled (BrokerSpec options1)"
    and "globalnet_ValidateExistingGlobalNetworks env config (BrokerNamespace options1) = Some e"
  shows "Broker env options
         = (reuse_options env options1,
            t1 @ [Call ForCluster None] @ td @ reuse_events env options1
            @ [Call (NewFromCluster config (BrokerNamespace options1)
                       (IpsecSubmFile (reuse_options env options1))) None]
            @ backup_events newFilename @ validate_events config options1 (Some e),
            Some (Wrapped e ''error validating existing globalCIDR configmap''))"
  using assms
  by (cases "IpsecSubmFile options1 = []"; cases "datafile_NewFromFile env brokerDetailsFilename";
      simp add: Broker_def Let_def reuse_options_def reuse_events_def backup_events_def
      validate_events_def)

lemma Broker_create:
  assumes "isValidComponents (stringset_New (Components (BrokerSpec options))) = None"
    and "checkGlobalnetConfig env options = (options1, t1, None)"
    and "restconfig_ForCluster env = Inr config"
    and "deploy env options1 config = (td, None)"
    and "datafile_NewFromCluster env config (BrokerNamespace options1)
           (IpsecSubmFile (reuse_options env options1)) = Inr subctlData0"
    and "datafile_BackupIfExists env brokerDetailsFilename = Inr newFilename"
    and "GlobalnetEnabled (BrokerSpec options1) \<longrightarrow>
           globalnet_ValidateExistingGlobalNetworks env config (BrokerNamespace options1) = None"
    and "broker_CreateGlobalnetConfigMap env config (GlobalnetEnabled (BrokerSpec options1))
           (GlobalnetCIDRRange (BrokerSpec options1))
           (DefaultGlobalnetClusterSize (BrokerSpec options1)) (BrokerNamespace options1) = Some e"
  shows "Broker env options
         = (reuse_options env options1,
            t1 @ [Call ForCluster None] @ td @ reuse_events env options1
            @ [Call (NewFromCluster config (BrokerNamespace options1)
                       (IpsecSubmFile (reuse_options env options1))) None]
            @ backup_events newFilename @ validate_events config options1 None
            @ [create_event config options1 (Some e)],
            Some (Wrapped e ''error creating globalCIDR configmap on Broker''))"
  using assms
  by (cases "IpsecSubmFile options1 = []"; cases "datafile_NewFromFile env brokerDetailsFilename";
      cases "GlobalnetEnabled (BrokerSpec options1)";
      simp add: Broker_def Let_def reuse_options_def reuse_events_def backup_events_def
      validate_events_def create_event_def)

lemma Broker_written:
  assumes "isValidComponents (stringset_New (Components (BrokerSpec options))) = None"
    and "checkGlobalnetConfig env options = (options1, t1, None)"
    and "restconfig_ForCluster env = Inr config"
    and "deploy env options1 config = (td, None)"
    and "datafile_NewFromCluster env config (BrokerNamespace options1)
           (IpsecSubmFile (reuse_options env options1)) = Inr subctlData0"
    and "datafile_BackupIfExists env brokerDetailsFilename = Inr newFilename"
    and "GlobalnetEnabled (BrokerSpec options1) \<longrightarrow>
           globalnet_ValidateExistingGlobalNetworks env config (BrokerNamespace options1) = None"
    and "broker_CreateGlobalnetConfigMap env config (GlobalnetEnabled (BrokerSpec options1))
           (GlobalnetCIDRRange (BrokerSpec options1))
           (DefaultGlobalnetClusterSize (BrokerSpec options1)) (BrokerNamespace options1) = None"
  shows "Broker env options
         = (reuse_options env options1,
            t1 @ [Call ForCluster None] @ td @ reuse_events env options1
            @ [Call (NewFromCluster config (BrokerNamespace options1)
                       (IpsecSubmFile (reuse_options env options1))) None]
            @ backup_events newFilename @ validate_events config options1 None
            @ [create_event config options1 None,
               Call (WriteToFile (descriptor options subctlData0) brokerDetailsFilename)
                 (datafile_WriteToFile env (descriptor options subctlData0) brokerDetailsFilename),
               Report (EndedWith
                 (datafile_WriteToFile env (descriptor options subctlData0) brokerDetailsFilename))],
            errors_Wrap (datafile_WriteToFile env (descriptor options subctlData0) brokerDetailsFilename)
              ''error writing the broker information'')"
proof -
  have o1: "options1 = resolved_options env options"
    using assms(2) checkGlobalnetConfig_ok by blast
  show ?thesis
    using assms unfolding o1
    by (cases "IpsecSubmFile options = []"; cases "datafile_NewFromFile env brokerDetailsFilename";
        cases "GlobalnetEnabled (BrokerSpec options)";
        simp add: Broker_def Let_def reuse_options_def reuse_events_def backup_events_def
        validate_events_def create_event_def descriptor_def componentSet_of_def)
qed

lemma Broker_cases [consumes 1, case_names invalid size cidr kubeconfig rbac image operator
    brokercr cluster backup validate create written]:
  assumes run: "Broker env options = (options', tr, res)"
  obtains
    (invalid) e where
      "isValidComponents (stringset_New (Components (BrokerSpec options))) = Some e"
      "options' = options" "tr = []"
      "res = Some (Wrapped e ''invalid components parameter'')"
  | (size) n e where
      "isValidComponents (stringset_New (Components (BrokerSpec options))) = None"
      "GlobalnetEnabled (BrokerSpec options)"
      "globalnet_GetValidClusterSize env (GlobalnetCIDRRange (BrokerSpec options))
         (DefaultGlobalnetClusterSize (BrokerSpec options)) = (n, Some e)"
      "options' = resolved_options env options"
      "tr = [Call (GetValidClusterSize (GlobalnetCIDRRange (BrokerSpec options))
                     (DefaultGlobalnetClusterSize (BrokerSpec options))) (Some e)]"
      "res = Some (Wrapped e ''invalid GlobalCIDR configuration'')"
  | (cidr) e where
      "isValidComponents (stringset_New (Components (BrokerSpec options))) = None"
      "GlobalnetEnabled (BrokerSpec options)"
      "globalnet_IsValidCIDR env (GlobalnetCIDRRange (BrokerSpec options)) = Some e"
      "options' = resolved_options env options"
      "tr = [Call (GetValidClusterSize (GlobalnetCIDRRange (BrokerSpec options))
                     (DefaultGlobalnetClusterSize (BrokerSpec options))) None,
             Call (IsValidCIDR (GlobalnetCIDRRange (BrokerSpec options))) (Some e)]"
      "res = Some (Wrapped e ''invalid GlobalCIDR configuration'')"
  | (kubeconfig) e where
      "isValidComponents (stringset_New (Components (BrokerSpec options))) = None"
      "checkGlobalnetConfig env options
         = (resolved_options env options, check_events options, None)"
      "restconfig_ForCluster env = Inl e"
      "options' = resolved_options env options"
      "tr = check_events options @ [Call ForCluster (Some e)]"
      "res = Some (Wrapped e ''the provided kubeconfig is invalid'')"
  | (rbac) config e where
      "isValidComponents (stringset_New (Components (BrokerSpec options))) = None"
      "checkGlobalnetConfig env options
         = (resolved_options env options, check_events options, None)"
      "restconfig_ForCluster env = Inr config"
      "options' = resolved_options env options"
      "tr = check_events options @ [Call ForCluster None]
            @ rbac_events config (resolved_options env options) (Some e)"
      "res = Some (Wrapped e ''error setting up broker RBAC'')"
  | (image) config e where
      "isValidComponents (stringset_New (Components (BrokerSpec options))) = None"
      "checkGlobalnetConfig env options
         = (resolved_options env options, check_events options, None)"
      "restconfig_ForCluster env = Inr config"
      "options' = resolved_options env options"
      "tr = check_events options @ [Call ForCluster None]
            @ rbac_events config (resolved_options env options) None
            @ [Report (Started ''Deploying the Submariner operator''),
               Call (ForOperator (ImageVersion options) (Repository options)) (Some e)]"
      "res = Some (Wrapped e ''error getting Operator image'')"
  | (operator) config operatorImage reports e where
      "isValidComponents (stringset_New (Components (BrokerSpec options))) = None"
      "checkGlobalnetConfig env options
         = (resolved_options env options, check_events options, None)"
      "restconfig_ForCluster env = Inr config"
      "options' = resolved_options env options"
      "tr = check_events options @ [Call ForCluster None]
            @ rbac_events config (resolved_options env options) None
            @ operator_events env config (resolved_options env options) operatorImage reports (Some e)"
      "res = Some (Wrapped e ''error deploying the operator'')"
  | (brokercr) config operatorImage reports e where
      "isValidComponents (stringset_New (Components (BrokerSpec options))) = None"
      "checkGlobalnetConfig env options
         = (resolved_options env options, check_events options, None)"
      "restconfig_ForCluster env = Inr config"
      "options' = resolved_options env options"
      "tr = check_events options @ [Call ForCluster None]
            @ rbac_events config (resolved_options env options) None
            @ operator_events env config (resolved_options env options) operatorImage reports None
            @ brokercr_events config (resolved_options env options) (Some e)"
      "res = Some (Wrapped e ''error deploying the broker'')"
  | (cluster) config operatorImage reports e where
      "isValidComponents (stringset_New (Components (BrokerSpec options))) = None"
      "checkGlobalnetConfig env options
         = (resolved_options env options, check_events options, None)"
      "restconfig_ForCluster env = Inr config"
      "options' = reuse_options env (resolved_options env options)"
      "tr = deployed_events env options config operatorImage reports
            @ reuse_events env (resolved_options env options)
            @ [Call (NewFromCluster config (BrokerNamespace options)
                       (IpsecSubmFile (reuse_options env (resolved_options env options)))) (Some e)]"
      "res = Some (Wrapped e ''error retrieving preparing the subm data file'')"
  | (backup) config operatorImage reports e where
      "isValidComponents (stringset_New (Components (BrokerSpec options))) = None"
      "checkGlobalnetConfig env options
         = (resolved_options env options, check_events options, None)"
      "restconfig_ForCluster env = Inr config"
      "options' = reuse_options env (resolved_options env options)"
      "tr = deployed_events env options config operatorImage reports
            @ reuse_events env (resolved_options env options)
            @ [Call (NewFromCluster config (BrokerNamespace options)
                       (IpsecSubmFile (reuse_options env (resolved_options env options)))) None,
               Call (BackupIfExists brokerDetailsFilename) (Some e)]"
      "res = Some (Wrapped e ''error backing up the brokerfile'')"
  | (validate) config operatorImage reports newFilename e where
      "isValidComponents (stringset_New (Components (BrokerSpec options))) = None"
      "checkGlobalnetConfig env options
         = (resolved_options env options, check_events options, None)"
      "restconfig_ForCluster env = Inr config"
      "GlobalnetEnabled (BrokerSpec options)"
      "options' = reuse_options env (resolved_options env options)"
      "tr = deployed_events env options config operatorImage reports
            @ reuse_events env (resolved_options env options)
            @ [Call (NewFromCluster config (BrokerNamespace options)
                       (IpsecSubmFile (reuse_options env (resolved_options env options)))) None]
            @ backup_events newFilename
            @ validate_events config (resolved_options env options) (Some e)"
      "res = Some (Wrapped e ''error validating existing globalCIDR configmap'')"
  | (create) config operatorImage reports newFilename e where
      "isValidComponents (stringset_New (Components (BrokerSpec options))) = None"
      "checkGlobalnetConfig env options
         = (resolved_options env options, check_events options, None)"
      "restconfig_ForCluster env = Inr config"
      "options' = reuse_options env (resolved_options env options)"
      "tr = deployed_events env options config operatorImage reports
            @ reuse_events env (resolved_options env options)
            @ [Call (NewFromCluster config (BrokerNamespace options)
                       (IpsecSubmFile (reuse_options env (resolved_options env options)))) None]
            @ backup_events newFilename
            @ validate_events config (resolved_options env options) None
            @ [create_event config (resolved_options env options) (Some e)]"
      "res = Some (Wrapped e ''error creating globalCIDR configmap on Broker'')"
  | (written) config operatorImage reports subctlData0 newFilename err where
      "isValidComponents (stringset_New (Components (BrokerSpec options))) = None"
      "checkGlobalnetConfig env options
         = (resolved_options env options, check_events options, None)"
      "restconfig_ForCluster env = Inr config"
      "datafile_NewFromCluster env config (BrokerNamespace options)
         (IpsecSubmFile (reuse_options env (resolved_options env options))) = Inr subctlData0"
      "options' = reuse_options env (resolved_options env options)"
      "tr = deployed_events env options config operatorImage reports
            @ reuse_events env (resolved_options env options)
            @ [Call (NewFromCluster config (BrokerNamespace options)
                       (IpsecSubmFile (reuse_options env (resolved_options env options)))) None]
            @ backup_events newFilename
            @ validate_events config (resolved_options env options) None
            @ [create_event config (resolved_options env options) None,
               Call (WriteToFile (descriptor options subctlData0) brokerDetailsFilename) err,
               Report (EndedWith err)]"
      "res = errors_Wrap err ''error writing the broker information''"
proof (cases "isValidComponents (stringset_New (Components (BrokerSpec options)))")
  case (Some e)
  from run Broker_invalid[OF Some, of env]
  have "options' = options" "tr = []" "res = Some (Wrapped e ''invalid components parameter'')"
    by auto
  with Some show thesis by (rule invalid)
next
  case valid: None
  obtain options1 t1 r1 where check: "checkGlobalnetConfig env options = (options1, t1, r1)"
    using prod_cases3 by blast
  show thesis
  proof (cases r1)
    case (Some e1)
    from run Broker_check_failed[OF valid check[unfolded Some]]
    have out: "options' = options1" "tr = t1" "res = Some (Wrapped e1 ''invalid GlobalCIDR configuration'')"
      by auto
    from check show thesis
    proof (cases rule: checkGlobalnetConfig_cases)
      case disabled
      with Some show thesis by simp
    next
      case (size n e)
      with Some out have "options' = resolved_options env options"
        "tr = [Call (GetValidClusterSize (GlobalnetCIDRRange (BrokerSpec options))
                     (DefaultGlobalnetClusterSize (BrokerSpec options))) (Some e)]"
        "res = Some (Wrapped e ''invalid GlobalCIDR configuration'')" by auto
      with valid size(1,2) show thesis by (rule that(2))
    next
      case (cidr e)
      with Some out have "options' = resolved_options env options"
        "tr = [Call (GetValidClusterSize (GlobalnetCIDRRange (BrokerSpec options))
                     (DefaultGlobalnetClusterSize (BrokerSpec options))) None,
               Call (IsValidCIDR (GlobalnetCIDRRange (BrokerSpec options))) (Some e)]"
        "res = Some (Wrapped e ''invalid GlobalCIDR configuration'')" by auto
      with valid cidr(1,2) show thesis by (rule that(3))
    next
      case checked
      with Some show thesis by simp
    qed
  next
    case check_ok: None
    note check' = check[unfolded check_ok]
    from checkGlobalnetConfig_ok[OF check']
    have o1: "options1 = resolved_options env options" and t1: "t1 = check_events options"
      by simp_all
    note chk = check'[unfolded o1 t1]
    show thesis
    proof (cases "restconfig_ForCluster env")
      case (Inl e)
      from run Broker_kubeconfig[OF valid check' Inl]
      have "options' = resolved_options env options"
        "tr = check_events options @ [Call ForCluster (Some e)]"
        "res = Some (Wrapped e ''the provided kubeconfig is invalid'')"
        by (auto simp: o1 t1)
      with valid chk Inl show thesis by (rule kubeconfig)
    next
      case kube: (Inr config)
      obtain td rd where dep: "deploy env options1 config = (td, rd)"
        by (cases "deploy env options1 config") blast
      show thesis
      proof (cases rd)
        case (Some e1)
        from run Broker_deploy_failed[OF valid check' kube dep[unfolded Some]]
        have out: "options' = resolved_options env options"
          "tr = check_events options @ [Call ForCluster None] @ td" "res = Some e1"
          by (auto simp: o1 t1)
        from dep show thesis
        proof (cases rule: deploy_cases)
          case (rbac e)
          with Some out have "options' = resolved_options env options"
            "tr = check_events options @ [Call ForCluster None]
                  @ rbac_events config (resolved_options env options) (Some e)"
            "res = Some (Wrapped e ''error setting up broker RBAC'')"
            by (auto simp: o1)
          with valid chk kube show thesis by (rule that(5))
        next
          case (image e)
          with Some out have "options' = resolved_options env options"
            "tr = check_events options @ [Call ForCluster None]
                  @ rbac_events config (resolved_options env options) None
                  @ [Report (Started ''Deploying the Submariner operator''),
                     Call (ForOperator (ImageVersion options) (Repository options)) (Some e)]"
            "res = Some (Wrapped e ''error getting Operator image'')"
            by (auto simp: o1)
          with valid chk kube show thesis by (rule that(6))
        next
          case (operator operatorImage reports e)
          with Some out have "options' = resolved_options env options"
            "tr = check_events options @ [Call ForCluster None]
                  @ rbac_events config (resolved_options env options) None
                  @ operator_events env config (resolved_options env options) operatorImage reports
                      (Some e)"
            "res = Some (Wrapped e ''error deploying the operator'')"
            by (auto simp: o1)
          with valid chk kube show thesis by (rule that(7))
        next
          case (brokercr operatorImage reports e)
          with Some out have "options' = resolved_options env options"
            "tr = check_events options @ [Call ForCluster None]
                  @ rbac_events config (resolved_options env options) None
                  @ operator_events env config (resolved_options env options) operatorImage reports None
                  @ brokercr_events config (resolved_options env options) (Some e)"
            "res = Some (Wrapped e ''error deploying the broker'')"
            by (auto simp: o1)
          with valid chk kube show thesis by (rule that(8))
        next
          case (deployed operatorImage reports)
          with Some show thesis by simp
        qed
      next
        case dep_ok: None
        note dep' = dep[unfolded dep_ok]
        from dep obtain operatorImage reports where
          td: "td = rbac_events config options1 None
                    @ operator_events env config options1 operatorImage reports None
                    @ brokercr_events config options1 None"
          by (cases rule: deploy_cases) (simp_all add: dep_ok)
        have pre: "t1 @ Call ForCluster None # td @ rest
                   = deployed_events env options config operatorImage reports @ rest" for rest
          by (simp add: deployed_events_def o1 t1 td)
        show thesis
        proof (cases "datafile_NewFromCluster env config (BrokerNamespace options1)
                        (IpsecSubmFile (reuse_options env options1))")
          case (Inl e)
          from run Broker_cluster[OF valid check' kube dep' Inl]
          have "options' = reuse_options env (resolved_options env options)"
            "tr = deployed_events env options config operatorImage reports
                  @ reuse_events env (resolved_options env options)
                  @ [Call (NewFromCluster config (BrokerNamespace options)
                       (IpsecSubmFile (reuse_options env (resolved_options env options)))) (Some e)]"
            "res = Some (Wrapped e ''error retrieving preparing the subm data file'')"
            by (auto simp: o1 pre)
          with valid chk kube show thesis by (rule that(9))
        next
          case nfc: (Inr subctlData0)
          show thesis
          proof (cases "datafile_BackupIfExists env brokerDetailsFilename")
            case (Inl e)
            from run Broker_backup[OF valid check' kube dep' nfc Inl]
            have "options' = reuse_options env (resolved_options env options)"
              "tr = deployed_events env options config operatorImage reports
                    @ reuse_events env (resolved_options env options)
                    @ [Call (NewFromCluster config (BrokerNamespace options)
                         (IpsecSubmFile (reuse_options env (resolved_options env options)))) None,
                       Call (BackupIfExists brokerDetailsFilename) (Some e)]"
              "res = Some (Wrapped e ''error backing up the brokerfile'')"
              by (auto simp: o1 pre)
            with valid chk kube show thesis by (rule that(10))
          next
            case bak: (Inr newFilename)
            show thesis
            proof (cases "GlobalnetEnabled (BrokerSpec options1) \<and>
                globalnet_ValidateExistingGlobalNetworks env config (BrokerNamespace options1) \<noteq> None")
              case True
              then obtain e where en: "GlobalnetEnabled (BrokerSpec options1)"
                and val: "globalnet_ValidateExistingGlobalNetworks env config (BrokerNamespace options1)
                          = Some e"
                by auto
              from run Broker_validate[OF valid check' kube dep' nfc bak en val]
              have "options' = reuse_options env (resolved_options env options)"
                "tr = deployed_events env options config operatorImage reports
                      @ reuse_events env (resolved_options env options)
                      @ [Call (NewFromCluster config (BrokerNamespace options)
                           (IpsecSubmFile (reuse_options env (resolved_options env options)))) None]
                      @ backup_events newFilename
                      @ validate_events config (resolved_options env options) (Some e)"
                "res = Some (Wrapped e ''error validating existing globalCIDR configmap'')"
                by (auto simp: o1 pre)
              moreover from en have "GlobalnetEnabled (BrokerSpec options)" by (simp add: o1)
              ultimately show thesis using valid chk kube by (intro that(11)[of config _ _ _ e])
            next
              case False
              then have val: "GlobalnetEnabled (BrokerSpec options1) \<longrightarrow>
                  globalnet_ValidateExistingGlobalNetworks env config (BrokerNamespace options1) = None"
                by auto
              show thesis
              proof (cases "broker_CreateGlobalnetConfigMap env config (GlobalnetEnabled (BrokerSpec options1))
                   (GlobalnetCIDRRange (BrokerSpec options1))
                   (DefaultGlobalnetClusterSize (BrokerSpec options1)) (BrokerNamespace options1)")
                case (Some e)
                from run Broker_create[OF valid check' kube dep' nfc bak val Some]
                have "options' = reuse_options env (resolved_options env options)"
                  "tr = deployed_events env options config operatorImage reports
                        @ reuse_events env (resolved_options env options)
                        @ [Call (NewFromCluster config (BrokerNamespace options)
                             (IpsecSubmFile (reuse_options env (resolved_options env options)))) None]
                        @ backup_events newFilename
                        @ validate_events config (resolved_options env options) None
                        @ [create_event config (resolved_options env options) (Some e)]"
                  "res = Some (Wrapped e ''error creating globalCIDR configmap on Broker'')"
                  by (auto simp: o1 pre)
                with valid chk kube show thesis by (rule that(12))
              next
                case None
                from run Broker_written[OF valid check' kube dep' nfc bak val None]
                have "options' = reuse_options env (resolved_options env options)"
                  "tr = deployed_events env options config operatorImage reports
                        @ reuse_events env (resolved_options env options)
                        @ [Call (NewFromCluster config (BrokerNamespace options)
                             (IpsecSubmFile (reuse_options env (resolved_options env options)))) None]
                        @ backup_events newFilename
                        @ validate_events config (resolved_options env options) None
                        @ [create_event config (resolved_options env options) None,
                           Call (WriteToFile (descriptor options subctlData0) brokerDetailsFilename)
                             (datafile_WriteToFile env (descriptor options subctlData0)
                                brokerDetailsFilename),
                           Report (EndedWith (datafile_WriteToFile env (descriptor options subctlData0)
                                brokerDetailsFilename))]"
                  "res = errors_Wrap (datafile_WriteToFile env (descriptor options subctlData0)
                                brokerDetailsFilename) ''error writing the broker information''"
                  by (auto simp: o1 pre)
                moreover from nfc have "datafile_NewFromCluster env config (BrokerNamespace options)
                    (IpsecSubmFile (reuse_options env (resolved_options env options))) = Inr subctlData0"
                  by (simp add: o1)
                ultimately show thesis using valid chk kube by (intro that(13)[of config subctlData0])
              qed
            qed
          qed
        qed
      qed
    qed
  qed
qed

section \<open>Traces\<close>

lemma calls_of_append [simp]: "calls_of (xs @ ys) = calls_of xs @ calls_of ys"
  by (induction xs rule: calls_of.induct) auto

lemma calls_of_map_Report [simp]: "calls_of (map Report rs) = []"
  by (induction rs) auto

lemma reports_of_append [simp]: "reports_of (xs @ ys) = reports_of xs @ reports_of ys"
  by (induction xs rule: reports_of.induct) auto

lemma fail_stop_reports [simp]: "fail_stop (map Report rs @ tr) = fail_stop tr"
  by (induction rs) auto

lemma occurs_before_reports [simp]:
  "occurs_before P Q (map Report rs @ tr) = occurs_before P Q tr"
  by (induction rs) auto

lemma from_call_reports [simp]: "from_call P (map Report rs @ tr) = from_call P tr"
  by (induction rs) auto

lemma Call_notin_reports [simp]: "Call c r \<notin> Report ` R"
  by auto



lemma failures_map_Report [simp]: "failures (map Report rs) = []"
  by (induction rs) auto

lemma failures_append [simp]: "failures (xs @ ys) = failures xs @ failures ys"
  by (induction xs rule: failures.induct) auto


lemmas part_defs = check_events_def rbac_events_def operator_events_def brokercr_events_def
  deployed_events_def reuse_events_def backup_events_def validate_events_def create_event_def




lemmas eval_defs = Broker_def deploy_def checkGlobalnetConfig_def isValidComponents_def
  stringset_New_def stringset_Add_def stringset_Contains_def stringset_Size_def stringset_Elements_def
  ValidComponents_def components_ServiceDiscovery_def components_Connectivity_def components_Globalnet_def
  brokerDetailsFilename_def SetComponents_def Let_def
  env_ok_def env_retry_def env_rbac_denied_def env_no_image_def env_no_kubeconfig_def
  options_connectivity_def options_globalnet_def options_bogus_def options_globalnet_listed_def
  options_sized_def

section \<open>String sets and component validation\<close>

lemma stringset_New_ValidComponents:
  "stringset_New ValidComponents = [components_ServiceDiscovery, components_Connectivity]"
  by (simp add: stringset_New_def ValidComponents_def stringset_Add_def
      components_ServiceDiscovery_def components_Connectivity_def)

lemma isValidComponents_loop_None:
  "isValidComponents_loop v es = None \<longleftrightarrow> set es \<subseteq> set v"
  by (induction es) (auto simp: stringset_Contains_def)

lemma isValidComponents_loop_Some:
  "\<not> set es \<subseteq> set v \<Longrightarrow>
     \<exists>c \<in> set es. c \<notin> set v \<and> isValidComponents_loop v es = Some (Error (''unknown component: '' @ c))"
  by (induction es) (auto simp: stringset_Contains_def)

lemma set_stringset_Add: "set (stringset_Add s x) = insert x (set s)"
  by (auto simp: stringset_Add_def)

lemma set_foldl_Add: "set (foldl stringset_Add acc items) = set acc \<union> set items"
  by (induction items arbitrary: acc) (auto simp: set_stringset_Add)

lemma set_stringset_New: "set (stringset_New items) = set items"
  by (simp add: stringset_New_def set_foldl_Add)

lemma stringset_New_Nil_iff: "stringset_New items = [] \<longleftrightarrow> items = []"
  using set_stringset_New[of items] by (metis set_empty)

lemma isValidComponents_None_iff:
  "isValidComponents s = None \<longleftrightarrow>
     s \<noteq> [] \<and> set s \<subseteq> {components_ServiceDiscovery, components_Connectivity}"
  by (cases s) (auto simp: isValidComponents_def stringset_New_ValidComponents stringset_Size_def
       stringset_Elements_def isValidComponents_loop_None Let_def stringset_Contains_def)

lemma isValidComponents_unknown:
  assumes "s \<noteq> []" and "\<not> set s \<subseteq> {components_ServiceDiscovery, components_Connectivity}"
  shows "\<exists>c \<in> set s. c \<notin> {components_ServiceDiscovery, components_Connectivity} \<and>
           isValidComponents s = Some (Error (''unknown component: '' @ c))"
proof -
  from assms(2) have "\<not> set s \<subseteq> set [components_ServiceDiscovery, components_Connectivity]"
    by simp
  from isValidComponents_loop_Some[OF this] assms(1) show ?thesis
    by (cases s) (auto simp: isValidComponents_def stringset_New_ValidComponents stringset_Size_def
        stringset_Elements_def Let_def)
qed

text \<open>
  Claim C4. Component validation succeeds for every non-empty set whose members are all
  among service-discovery and connectivity; it returns an error for the empty set (at
  least one component must be provided) and for every set with a member outside that
  vocabulary (unknown component, naming such a member).
\<close>

theorem isValidComponents_vocabulary:
  "(isValidComponents (stringset_New cs) = None
      \<longleftrightarrow> cs \<noteq> [] \<and> set cs \<subseteq> {components_ServiceDiscovery, components_Connectivity})
   \<and> (cs = [] \<longrightarrow> isValidComponents (stringset_New cs)
          = Some (Error ''at least one component must be provided for deployment''))
   \<and> (cs \<noteq> [] \<and> \<not> set cs \<subseteq> {components_ServiceDiscovery, components_Connectivity}
        \<longrightarrow> (\<exists>c \<in> set cs. c \<notin> {components_ServiceDiscovery, components_Connectivity} \<and>
              isValidComponents (stringset_New cs) = Some (Error (''unknown component: '' @ c))))"
proof (intro conjI impI)
  show "isValidComponents (stringset_New cs) = None
      \<longleftrightarrow> cs \<noteq> [] \<and> set cs \<subseteq> {components_ServiceDiscovery, components_Connectivity}"
    by (simp add: isValidComponents_None_iff set_stringset_New stringset_New_Nil_iff)
next
  assume "cs = []"
  then show "isValidComponents (stringset_New cs)
          = Some (Error ''at least one component must be provided for deployment'')"
    by (simp add: isValidComponents_def stringset_New_def stringset_Size_def)
next
  assume "cs \<noteq> [] \<and> \<not> set cs \<subseteq> {components_ServiceDiscovery, components_Connectivity}"
  then show "\<exists>c \<in> set cs. c \<notin> {components_ServiceDiscovery, components_Connectivity} \<and>
              isValidComponents (stringset_New cs) = Some (Error (''unknown component: '' @ c))"
    using isValidComponents_unknown[of "stringset_New cs"]
    by (simp add: set_stringset_New stringset_New_Nil_iff)
qed

text \<open>The three cases on concrete lists, a duplicate included.\<close>

theorem isValidComponents_vocabulary_witness:
  "isValidComponents (stringset_New [''connectivity'', ''service-discovery'', ''connectivity'']) = None
   \<and> isValidComponents (stringset_New [])
       = Some (Error ''at least one component must be provided for deployment'')
   \<and> isValidComponents (stringset_New [''connectivity'', ''bogus''])
       = Some (Error ''unknown component: bogus'')"
proof -
  have "isValidComponents (stringset_New [''connectivity'', ''bogus''])
       = Some (Error ''unknown component: bogus'')"
    by (simp add: isValidComponents_def stringset_New_def stringset_Add_def stringset_Size_def
        stringset_Elements_def stringset_Contains_def ValidComponents_def
        components_ServiceDiscovery_def components_Connectivity_def)
  then show ?thesis
    using isValidComponents_vocabulary[of "[''connectivity'', ''service-discovery'', ''connectivity'']"]
      isValidComponents_vocabulary[of "[]"]
    by (simp add: components_ServiceDiscovery_def components_Connectivity_def)
qed

section \<open>checkGlobalnetConfig\<close>

text \<open>
  Claim C9, as amended. When globalnet is not enabled, \<open>checkGlobalnetConfig\<close> does
  nothing: it returns nil, calls neither \<open>GetValidClusterSize\<close> nor \<open>IsValidCIDR\<close>, and
  leaves the options as they are, so the cluster size stays the one the caller gave.
\<close>

theorem checkGlobalnetConfig_disabled:
  assumes "\<not> GlobalnetEnabled (BrokerSpec options)"
  shows "checkGlobalnetConfig env options = (options, [], None)"
  using assms by (simp add: checkGlobalnetConfig_def)

text \<open>A request with globalnet off and a cluster size of 8192.\<close>

theorem checkGlobalnetConfig_disabled_witness:
  "\<not> GlobalnetEnabled (BrokerSpec options_sized) \<and>
   checkGlobalnetConfig env_ok options_sized = (options_sized, [], None)"
proof -
  have "\<not> GlobalnetEnabled (BrokerSpec options_sized)"
    by (simp add: options_sized_def)
  with checkGlobalnetConfig_disabled[of options_sized env_ok] show ?thesis by simp
qed

text \<open>
  The claim as first stated has the resolved cluster size be zero whenever globalnet is
  off. For the request above it is 8192 after the call.
\<close>

theorem checkGlobalnetConfig_size_kept_counterexample:
  "\<not> GlobalnetEnabled (BrokerSpec options_sized) \<and>
   DefaultGlobalnetClusterSize (BrokerSpec (fst (checkGlobalnetConfig env_ok options_sized))) \<noteq> 0"
  by (simp add: checkGlobalnetConfig_def options_sized_def)

section \<open>Runs on the samples\<close>

lemma run_collapse:
  "Broker env options = (fst (Broker env options), fst (snd (Broker env options)),
                         snd (snd (Broker env options)))"
  by simp

section \<open>Order of the calls\<close>




text \<open>
  Claim C2, as amended. In every run that writes the descriptor, the backup by
  \<open>BackupIfExists\<close> comes before the creation of the addressing configuration, the
  creation of the addressing configuration has returned nil, and only then the
  descriptor is written by \<open>WriteToFile\<close>: the write never comes before the creation of
  the addressing configuration.
\<close>

theorem Broker_config_before_write:
  assumes "Broker env options = (options', tr, res)"
    and "list_ex is_WriteToFile (calls_of tr)"
  shows "occurs_before is_BackupIfExists is_CreateGlobalnetConfigMap tr
         \<and> occurs_before is_CreateGlobalnetConfigMap is_WriteToFile tr
         \<and> \<not> occurs_before is_WriteToFile is_CreateGlobalnetConfigMap tr
         \<and> (\<forall>c r. Call c r \<in> set tr \<and> is_CreateGlobalnetConfigMap c \<longrightarrow> r = None)"
  using assms
  by (cases rule: Broker_cases) (auto simp add: part_defs split: sum.splits if_splits)

text \<open>A retry with globalnet on a cluster where every step succeeds.\<close>

theorem Broker_config_before_write_witness:
  "list_ex is_WriteToFile (calls_of (fst (snd (Broker env_retry options_globalnet))))
   \<and> occurs_before is_BackupIfExists is_CreateGlobalnetConfigMap
        (fst (snd (Broker env_retry options_globalnet)))
   \<and> occurs_before is_CreateGlobalnetConfigMap is_WriteToFile
        (fst (snd (Broker env_retry options_globalnet)))"
proof -
  have w: "list_ex is_WriteToFile (calls_of (fst (snd (Broker env_retry options_globalnet))))"
    by (simp add: eval_defs)
  with Broker_config_before_write[of env_retry options_globalnet
      "fst (Broker env_retry options_globalnet)" "fst (snd (Broker env_retry options_globalnet))"
      "snd (snd (Broker env_retry options_globalnet))"]
  show ?thesis by simp
qed

text \<open>
  The claim as first stated has the descriptor written before the addressing
  configuration is created. In the run of a first deployment both calls are made, and
  the write is not the earlier one.
\<close>

theorem Broker_write_before_config_counterexample:
  "list_ex is_WriteToFile (calls_of (fst (snd (Broker env_ok options_connectivity))))
   \<and> list_ex is_CreateGlobalnetConfigMap (calls_of (fst (snd (Broker env_ok options_connectivity))))
   \<and> \<not> occurs_before is_WriteToFile is_CreateGlobalnetConfigMap
          (fst (snd (Broker env_ok options_connectivity)))"
  by (simp add: eval_defs)

section \<open>What the calls carry\<close>

lemma globalnet_not_valid:
  assumes "isValidComponents (stringset_New cs) = None"
  shows "components_Globalnet \<notin> set cs"
  using assms
  by (auto simp: isValidComponents_None_iff set_stringset_New stringset_New_Nil_iff
      components_Globalnet_def components_ServiceDiscovery_def components_Connectivity_def)

text \<open>
  Claim C3, as amended. The spec handed to \<open>brokercr.Ensure\<close> is the request's own
  \<open>BrokerSpec\<close>, with the component list as the user gave it: it never lists the
  globalnet component. Globalnet reaches the broker resource through the flag
  \<open>GlobalnetEnabled\<close>, and through the cluster size, which is the resolved one when the
  flag is set.
\<close>

theorem Broker_requested_spec:
  assumes "Broker env options = (options', tr, res)"
    and "Call (BrokerCREnsure config namespace spec) r \<in> set tr"
  shows "Components spec = Components (BrokerSpec options)
         \<and> components_Globalnet \<notin> set (Components spec)
         \<and> GlobalnetEnabled spec = GlobalnetEnabled (BrokerSpec options)
         \<and> spec = (BrokerSpec options)\<lparr>DefaultGlobalnetClusterSize :=
               (if GlobalnetEnabled (BrokerSpec options)
                then fst (globalnet_GetValidClusterSize env (GlobalnetCIDRRange (BrokerSpec options))
                            (DefaultGlobalnetClusterSize (BrokerSpec options)))
                else DefaultGlobalnetClusterSize (BrokerSpec options))\<rparr>"
  using assms
  by (cases rule: Broker_cases)
     (auto simp add: part_defs resolved_options_def dest: globalnet_not_valid split: sum.splits if_splits)

text \<open>A first deployment with globalnet enabled.\<close>

theorem Broker_requested_spec_witness:
  "Call (BrokerCREnsure ''https://broker.example:6443'' ''submariner-k8s-broker''
           \<lparr>Components = [''connectivity''], DefaultCustomDomains = [],
              GlobalnetEnabled = True, GlobalnetCIDRRange = ''240.0.0.0/8'',
              DefaultGlobalnetClusterSize = 65536\<rparr>) None
     \<in> set (fst (snd (Broker env_ok options_globalnet)))
   \<and> components_Globalnet \<notin> set [''connectivity'']"
proof -
  have m: "Call (BrokerCREnsure ''https://broker.example:6443'' ''submariner-k8s-broker''
           \<lparr>Components = [''connectivity''], DefaultCustomDomains = [],
              GlobalnetEnabled = True, GlobalnetCIDRRange = ''240.0.0.0/8'',
              DefaultGlobalnetClusterSize = 65536\<rparr>) None
     \<in> set (fst (snd (Broker env_ok options_globalnet)))"
    by (simp add: eval_defs)
  have run: "Broker env_ok options_globalnet
             = (fst (Broker env_ok options_globalnet), fst (snd (Broker env_ok options_globalnet)),
                snd (snd (Broker env_ok options_globalnet)))"
    by simp
  from Broker_requested_spec[OF run m, THEN conjunct2, THEN conjunct1]
  have "components_Globalnet \<notin> set [''connectivity'']" by simp
  with m show ?thesis by (rule conjI)
qed

text \<open>
  The claim as first stated has the globalnet component in the component list of that
  spec when globalnet is enabled. In the run above the list is the user's.
\<close>

theorem Broker_requested_spec_counterexample:
  "GlobalnetEnabled (BrokerSpec options_globalnet)
   \<and> map Components (requested_specs (fst (snd (Broker env_ok options_globalnet)))) = [[''connectivity'']]
   \<and> components_Globalnet \<notin> set [''connectivity'']"
  by (simp add: eval_defs)

text \<open>
  Claim C6. When the components are invalid, or the globalnet configuration is, or the
  kubeconfig cannot be resolved, \<open>Broker\<close> returns a wrapped error; until then the
  reporter has not been called, and the only calls made are those of the validation
  itself and of the kubeconfig resolution: nothing was asked of the cluster and no
  descriptor file was touched.
\<close>

theorem Broker_validation_failure:
  assumes "Broker env options = (options', tr, res)"
    and "isValidComponents (stringset_New (Components (BrokerSpec options))) \<noteq> None
         \<or> snd (snd (checkGlobalnetConfig env options)) \<noteq> None
         \<or> isl (restconfig_ForCluster env)"
  shows "reports_of tr = []
         \<and> set (calls_of tr) \<subseteq>
             {GetValidClusterSize (GlobalnetCIDRRange (BrokerSpec options))
                (DefaultGlobalnetClusterSize (BrokerSpec options)),
              IsValidCIDR (GlobalnetCIDRRange (BrokerSpec options)), ForCluster}
         \<and> (\<exists>e. res = Some (Wrapped e ''invalid components parameter'')
                \<or> res = Some (Wrapped e ''invalid GlobalCIDR configuration'')
                \<or> res = Some (Wrapped e ''the provided kubeconfig is invalid''))"
  using assms
  by (cases rule: Broker_cases) (auto simp add: check_events_def)

text \<open>A request for the component bogus.\<close>

theorem Broker_validation_failure_witness:
  "Broker env_ok options_bogus
     = (options_bogus, [],
        Some (Wrapped (Error ''unknown component: bogus'') ''invalid components parameter''))
   \<and> reports_of [] = []"
proof -
  have run: "Broker env_ok options_bogus
     = (options_bogus, [],
        Some (Wrapped (Error ''unknown component: bogus'') ''invalid components parameter''))"
    by (simp add: eval_defs)
  have "isValidComponents (stringset_New (Components (BrokerSpec options_bogus))) \<noteq> None"
    by (simp add: eval_defs)
  with Broker_validation_failure[OF run] run show ?thesis by simp
qed

section \<open>Reuse of the secret\<close>

lemma from_call_append:
  "from_call P (xs @ ys)
     = (if list_ex P (calls_of xs) then from_call P xs @ ys else from_call P ys)"
  by (induction P xs rule: from_call.induct) auto

lemma from_call_suffix: "from_call P tr = ev # rest \<Longrightarrow> \<exists>pre. tr = pre @ ev # rest"
proof (induction P tr rule: from_call.induct)
  case (1 P)
  then show ?case by simp
next
  case (2 P r tr)
  then obtain pre where "tr = pre @ ev # rest" by auto
  then have "Report r # tr = (Report r # pre) @ ev # rest" by simp
  then show ?case by blast
next
  case (3 P c res tr)
  show ?case
  proof (cases "P c")
    case True
    with 3 have "Call c res # tr = [] @ ev # rest" by simp
    then show ?thesis by blast
  next
    case False
    with 3 obtain pre where "tr = pre @ ev # rest" by auto
    then have "Call c res # tr = (Call c res # pre) @ ev # rest" by simp
    then show ?thesis by blast
  qed
qed

lemma Broker_from_NewFromFile:
  assumes "Broker env options = (options', tr, res)"
    and "IpsecSubmFile options = []"
    and "Call (BrokerCREnsure config namespace spec) None \<in> set tr"
  shows "\<exists>r post. from_call is_NewFromFile tr =
           (case datafile_NewFromFile env brokerDetailsFilename of
              Inr loaded \<Rightarrow>
                Call (NewFromFile brokerDetailsFilename) None
                # Report (Warned ''Reusing IPsec PSK from existing broker-info.subm'')
                # Call (NewFromCluster config namespace brokerDetailsFilename) r # post
            | Inl e \<Rightarrow>
                Call (NewFromFile brokerDetailsFilename) (Some e)
                # Report (Succeeded ''A new IPsec PSK will be generated for broker-info.subm'')
                # Call (NewFromCluster config namespace []) r # post)"
  using assms
  by (cases rule: Broker_cases)
     (auto simp add: part_defs from_call_append reuse_options_def brokerDetailsFilename_def
        split: sum.splits if_splits)

lemma Broker_reuse_options:
  assumes "Broker env options = (options', tr, res)"
    and "IpsecSubmFile options = []"
    and "Call (BrokerCREnsure config namespace spec) None \<in> set tr"
  shows "IpsecSubmFile options' =
           (case datafile_NewFromFile env brokerDetailsFilename of
              Inr loaded \<Rightarrow> brokerDetailsFilename | Inl e \<Rightarrow> [])"
  using assms
  by (cases rule: Broker_cases)
     (auto simp add: part_defs reuse_options_def split: sum.splits if_splits)

text \<open>
  Claim C5. Take a run whose request pins no descriptor file and whose \<open>deploy\<close>
  succeeded (the broker resource call returned nil). If the file at the conventional
  place loads, the request's descriptor path becomes that file, a warning that the
  secret is reused is reported, and the descriptor is built from that file. If the load
  fails, whatever the error, \<open>Broker\<close> does not return: it reports that a new secret will
  be generated and goes on to build the descriptor with no file.
\<close>

theorem Broker_reuse_decision:
  assumes "Broker env options = (options', tr, res)"
    and "IpsecSubmFile options = []"
    and "Call (BrokerCREnsure config namespace spec) None \<in> set tr"
  shows "case datafile_NewFromFile env brokerDetailsFilename of
           Inr loaded \<Rightarrow>
             IpsecSubmFile options' = brokerDetailsFilename \<and>
             (\<exists>pre r post. tr = pre
                @ Call (NewFromFile brokerDetailsFilename) None
                # Report (Warned ''Reusing IPsec PSK from existing broker-info.subm'')
                # Call (NewFromCluster config namespace brokerDetailsFilename) r # post)
         | Inl e \<Rightarrow>
             IpsecSubmFile options' = [] \<and>
             (\<exists>pre r post. tr = pre
                @ Call (NewFromFile brokerDetailsFilename) (Some e)
                # Report (Succeeded ''A new IPsec PSK will be generated for broker-info.subm'')
                # Call (NewFromCluster config namespace []) r # post)"
proof -
  from Broker_from_NewFromFile[OF assms] obtain r post where
    fc: "from_call is_NewFromFile tr =
           (case datafile_NewFromFile env brokerDetailsFilename of
              Inr loaded \<Rightarrow>
                Call (NewFromFile brokerDetailsFilename) None
                # Report (Warned ''Reusing IPsec PSK from existing broker-info.subm'')
                # Call (NewFromCluster config namespace brokerDetailsFilename) r # post
            | Inl e \<Rightarrow>
                Call (NewFromFile brokerDetailsFilename) (Some e)
                # Report (Succeeded ''A new IPsec PSK will be generated for broker-info.subm'')
                # Call (NewFromCluster config namespace []) r # post)"
    by blast
  show ?thesis
  proof (cases "datafile_NewFromFile env brokerDetailsFilename")
    case (Inl e)
    with fc from_call_suffix obtain pre where "tr = pre
                @ Call (NewFromFile brokerDetailsFilename) (Some e)
                # Report (Succeeded ''A new IPsec PSK will be generated for broker-info.subm'')
                # Call (NewFromCluster config namespace []) r # post"
      by fastforce
    with Inl Broker_reuse_options[OF assms] show ?thesis by auto
  next
    case (Inr loaded)
    with fc from_call_suffix obtain pre where "tr = pre
                @ Call (NewFromFile brokerDetailsFilename) None
                # Report (Warned ''Reusing IPsec PSK from existing broker-info.subm'')
                # Call (NewFromCluster config namespace brokerDetailsFilename) r # post"
      by fastforce
    with Inr Broker_reuse_options[OF assms] show ?thesis by auto
  qed
qed

text \<open>
  A first deployment, where the load fails and the run still succeeds, and a retry,
  where the file of the first deployment loads.
\<close>

theorem Broker_reuse_decision_witness:
  "IpsecSubmFile options_connectivity = []
   \<and> datafile_NewFromFile env_ok brokerDetailsFilename = Inl (Error ''no such file'')
   \<and> IpsecSubmFile (fst (Broker env_ok options_connectivity)) = []
   \<and> snd (snd (Broker env_ok options_connectivity)) = None
   \<and> datafile_NewFromFile env_retry brokerDetailsFilename
       = Inr \<lparr>BrokerURL = ''https://broker.example:6443'', IPSecPSK = ''fresh-psk'',
              ServiceDiscovery = False, Components_subm = [''connectivity''], CustomDomains = None\<rparr>
   \<and> IpsecSubmFile (fst (Broker env_retry options_connectivity)) = brokerDetailsFilename"
proof -
  have i: "IpsecSubmFile options_connectivity = []"
    by (simp add: options_connectivity_def)
  have l1: "datafile_NewFromFile env_ok brokerDetailsFilename = Inl (Error ''no such file'')"
    by (simp add: env_ok_def)
  have l2: "datafile_NewFromFile env_retry brokerDetailsFilename
       = Inr \<lparr>BrokerURL = ''https://broker.example:6443'', IPSecPSK = ''fresh-psk'',
              ServiceDiscovery = False, Components_subm = [''connectivity''], CustomDomains = None\<rparr>"
    by (simp add: env_retry_def env_ok_def)
  have m1: "Call (BrokerCREnsure ''https://broker.example:6443'' ''submariner-k8s-broker''
                    (BrokerSpec options_connectivity)) None
            \<in> set (fst (snd (Broker env_ok options_connectivity)))"
    by (simp add: eval_defs)
  have m2: "Call (BrokerCREnsure ''https://broker.example:6443'' ''submariner-k8s-broker''
                    (BrokerSpec options_connectivity)) None
            \<in> set (fst (snd (Broker env_retry options_connectivity)))"
    by (simp add: eval_defs)
  have ok: "snd (snd (Broker env_ok options_connectivity)) = None"
    by (simp add: eval_defs)
  from Broker_reuse_decision[OF run_collapse i m1]
  have "IpsecSubmFile (fst (Broker env_ok options_connectivity)) = []"
    by (simp add: l1)
  moreover from Broker_reuse_decision[OF run_collapse i m2]
  have "IpsecSubmFile (fst (Broker env_retry options_connectivity)) = brokerDetailsFilename"
    by (simp add: l2)
  ultimately show ?thesis using i l1 l2 ok by simp
qed

section \<open>The globalnet component\<close>

lemma Broker_rejects_globalnet:
  assumes g: "components_Globalnet \<in> set (Components (BrokerSpec options))"
  shows "\<exists>c \<in> set (Components (BrokerSpec options)). c \<notin> set ValidComponents \<and>
         Broker env options
           = (options, [],
              Some (Wrapped (Error (''unknown component: '' @ c)) ''invalid components parameter''))"
proof -
  let ?s = "stringset_New (Components (BrokerSpec options))"
  from g have "?s \<noteq> []"
    by (auto simp: stringset_New_Nil_iff)
  moreover from g have "\<not> set ?s \<subseteq> {components_ServiceDiscovery, components_Connectivity}"
    by (auto simp: set_stringset_New components_Globalnet_def components_ServiceDiscovery_def
        components_Connectivity_def)
  ultimately obtain c where c: "c \<in> set ?s"
      "c \<notin> {components_ServiceDiscovery, components_Connectivity}"
      "isValidComponents ?s = Some (Error (''unknown component: '' @ c))"
    using isValidComponents_unknown by blast
  from Broker_invalid[OF c(3)] c(1,2) show ?thesis
    by (auto simp: set_stringset_New ValidComponents_def)
qed

lemma Broker_descriptor_components:
  assumes "Broker env options = (options', tr, res)"
    and "Call (WriteToFile subctlData filename) r \<in> set tr"
  shows "set (Components_subm subctlData)
           = (if GlobalnetEnabled (BrokerSpec options)
              then insert components_Globalnet (set (Components (BrokerSpec options)))
              else set (Components (BrokerSpec options)))"
  using assms
  by (cases rule: Broker_cases)
     (auto simp add: part_defs descriptor_def SetComponents_def stringset_Elements_def
        componentSet_of_def set_stringset_Add set_stringset_New Let_def
        split: sum.splits if_splits)

text \<open>
  Claim C7. A request that lists the globalnet component fails component validation
  with an unknown component error, and \<open>Broker\<close> returns it before doing anything
  else. When globalnet is enabled, the components recorded in the descriptor that is
  written are those of the request together with the globalnet component.
\<close>

theorem Broker_globalnet_component:
  "(components_Globalnet \<in> set (Components (BrokerSpec options)) \<longrightarrow>
      (\<exists>c \<in> set (Components (BrokerSpec options)). c \<notin> set ValidComponents \<and>
         Broker env options
           = (options, [],
              Some (Wrapped (Error (''unknown component: '' @ c)) ''invalid components parameter''))))
   \<and> (\<forall>options' tr res subctlData filename r.
         Broker env options = (options', tr, res) \<and> GlobalnetEnabled (BrokerSpec options)
         \<and> Call (WriteToFile subctlData filename) r \<in> set tr
         \<longrightarrow> components_Globalnet \<in> set (Components_subm subctlData)
             \<and> set (Components_subm subctlData)
                 = insert components_Globalnet (set (Components (BrokerSpec options))))"
proof (intro conjI allI impI)
  assume "components_Globalnet \<in> set (Components (BrokerSpec options))"
  then show "\<exists>c \<in> set (Components (BrokerSpec options)). c \<notin> set ValidComponents \<and>
         Broker env options
           = (options, [],
              Some (Wrapped (Error (''unknown component: '' @ c)) ''invalid components parameter''))"
    by (rule Broker_rejects_globalnet)
next
  fix options' tr res subctlData filename r
  assume "Broker env options = (options', tr, res) \<and> GlobalnetEnabled (BrokerSpec options)
         \<and> Call (WriteToFile subctlData filename) r \<in> set tr"
  with Broker_descriptor_components[of env options options' tr res subctlData filename r]
  show "components_Globalnet \<in> set (Components_subm subctlData)" by simp
next
  fix options' tr res subctlData filename r
  assume "Broker env options = (options', tr, res) \<and> GlobalnetEnabled (BrokerSpec options)
         \<and> Call (WriteToFile subctlData filename) r \<in> set tr"
  with Broker_descriptor_components[of env options options' tr res subctlData filename r]
  show "set (Components_subm subctlData)
                 = insert components_Globalnet (set (Components (BrokerSpec options)))" by simp
qed

text \<open>A request that lists globalnet, and one that enables it.\<close>

theorem Broker_globalnet_component_witness:
  "components_Globalnet \<in> set (Components (BrokerSpec options_globalnet_listed))
   \<and> Broker env_ok options_globalnet_listed
       = (options_globalnet_listed, [],
          Some (Wrapped (Error ''unknown component: globalnet'') ''invalid components parameter''))
   \<and> GlobalnetEnabled (BrokerSpec options_globalnet)
   \<and> map Components_subm (written_descriptors (fst (snd (Broker env_ok options_globalnet))))
       = [[''connectivity'', ''globalnet'']]
   \<and> components_Globalnet \<in> set [''connectivity'', ''globalnet'']"
proof -
  have g: "components_Globalnet \<in> set (Components (BrokerSpec options_globalnet_listed))"
    by (simp add: options_globalnet_listed_def options_connectivity_def components_Globalnet_def)
  have r1: "Broker env_ok options_globalnet_listed
       = (options_globalnet_listed, [],
          Some (Wrapped (Error ''unknown component: globalnet'') ''invalid components parameter''))"
    by (simp add: eval_defs)
  have en: "GlobalnetEnabled (BrokerSpec options_globalnet)"
    by (simp add: options_globalnet_def options_connectivity_def)
  have w: "Call (WriteToFile
                  \<lparr>BrokerURL = ''https://broker.example:6443'', IPSecPSK = ''fresh-psk'',
                     ServiceDiscovery = False, Components_subm = [''connectivity'', ''globalnet''],
                     CustomDomains = None\<rparr> ''broker-info.subm'') None
             \<in> set (fst (snd (Broker env_ok options_globalnet)))"
    by (simp add: eval_defs)
  have d: "map Components_subm (written_descriptors (fst (snd (Broker env_ok options_globalnet))))
       = [[''connectivity'', ''globalnet'']]"
    by (simp add: eval_defs)
  from Broker_globalnet_component[of options_globalnet env_ok, THEN conjunct2, rule_format,
      OF conjI[OF run_collapse conjI[OF en w]], THEN conjunct1]
  have "components_Globalnet \<in> set [''connectivity'', ''globalnet'']" by simp
  with g r1 en d show ?thesis by simp
qed

section \<open>Changes to the request\<close>

lemma Broker_final_options:
  assumes "Broker env options = (options', tr, res)"
  shows "options' = options
           \<lparr>IpsecSubmFile :=
              (if IpsecSubmFile options = [] \<and> Call (NewFromFile brokerDetailsFilename) None \<in> set tr
               then brokerDetailsFilename else IpsecSubmFile options),
            BrokerSpec := (BrokerSpec options)\<lparr>DefaultGlobalnetClusterSize :=
              (if isValidComponents (stringset_New (Components (BrokerSpec options))) = None
                  \<and> GlobalnetEnabled (BrokerSpec options)
               then fst (globalnet_GetValidClusterSize env (GlobalnetCIDRRange (BrokerSpec options))
                           (DefaultGlobalnetClusterSize (BrokerSpec options)))
               else DefaultGlobalnetClusterSize (BrokerSpec options))\<rparr>\<rparr>"
  using assms
  by (cases rule: Broker_cases)
     (auto simp add: part_defs resolved_options_def reuse_options_def split: sum.splits if_splits)

lemma checkGlobalnetConfig_options:
  assumes "GlobalnetEnabled (BrokerSpec options)"
  shows "fst (checkGlobalnetConfig env options)
           = options\<lparr>BrokerSpec := (BrokerSpec options)\<lparr>DefaultGlobalnetClusterSize :=
               fst (globalnet_GetValidClusterSize env (GlobalnetCIDRRange (BrokerSpec options))
                      (DefaultGlobalnetClusterSize (BrokerSpec options)))\<rparr>\<rparr>"
proof -
  obtain options1 t1 r where c: "checkGlobalnetConfig env options = (options1, t1, r)"
    using prod_cases3 by blast
  from c assms have "options1 = resolved_options env options"
    by (cases rule: checkGlobalnetConfig_cases) simp_all
  with c assms show ?thesis by (simp add: resolved_options_def)
qed

text \<open>
  Claim C10. \<open>Broker\<close> changes the options it is given. When the request pins no
  descriptor file and the file at the conventional place loads, \<open>IpsecSubmFile\<close> is that
  file when \<open>Broker\<close> returns. When globalnet is enabled, \<open>checkGlobalnetConfig\<close>
  overwrites \<open>DefaultGlobalnetClusterSize\<close> with the size that \<open>GetValidClusterSize\<close>
  returned, and \<open>Broker\<close>, once the components are valid, returns the options with
  that size.
\<close>

theorem Broker_mutates_options:
  assumes "Broker env options = (options', tr, res)"
  shows "(IpsecSubmFile options = [] \<and> Call (NewFromFile brokerDetailsFilename) None \<in> set tr
            \<longrightarrow> IpsecSubmFile options' = brokerDetailsFilename)
         \<and> (GlobalnetEnabled (BrokerSpec options) \<longrightarrow>
              fst (checkGlobalnetConfig env options)
                = options\<lparr>BrokerSpec := (BrokerSpec options)\<lparr>DefaultGlobalnetClusterSize :=
                    fst (globalnet_GetValidClusterSize env (GlobalnetCIDRRange (BrokerSpec options))
                           (DefaultGlobalnetClusterSize (BrokerSpec options)))\<rparr>\<rparr>)
         \<and> (GlobalnetEnabled (BrokerSpec options)
              \<and> isValidComponents (stringset_New (Components (BrokerSpec options))) = None
            \<longrightarrow> DefaultGlobalnetClusterSize (BrokerSpec options')
                  = fst (globalnet_GetValidClusterSize env (GlobalnetCIDRRange (BrokerSpec options))
                           (DefaultGlobalnetClusterSize (BrokerSpec options))))"
  using Broker_final_options[OF assms] checkGlobalnetConfig_options[of options env]
  by simp

text \<open>A retry with globalnet enabled: both fields differ from the request.\<close>

theorem Broker_mutates_options_witness:
  "IpsecSubmFile options_globalnet = []
   \<and> DefaultGlobalnetClusterSize (BrokerSpec options_globalnet) = 0
   \<and> IpsecSubmFile (fst (Broker env_retry options_globalnet)) = brokerDetailsFilename
   \<and> DefaultGlobalnetClusterSize (BrokerSpec (fst (Broker env_retry options_globalnet))) = 65536
   \<and> fst (Broker env_retry options_globalnet) \<noteq> options_globalnet"
proof -
  have i: "IpsecSubmFile options_globalnet = []"
    and z: "DefaultGlobalnetClusterSize (BrokerSpec options_globalnet) = 0"
    and en: "GlobalnetEnabled (BrokerSpec options_globalnet)"
    by (simp_all add: options_globalnet_def options_connectivity_def)
  have l: "Call (NewFromFile brokerDetailsFilename) None
             \<in> set (fst (snd (Broker env_retry options_globalnet)))"
    by (simp add: eval_defs)
  have v: "isValidComponents (stringset_New (Components (BrokerSpec options_globalnet))) = None"
    by (simp add: eval_defs)
  have g: "fst (globalnet_GetValidClusterSize env_retry
                  (GlobalnetCIDRRange (BrokerSpec options_globalnet))
                  (DefaultGlobalnetClusterSize (BrokerSpec options_globalnet))) = 65536"
    by (simp add: env_retry_def env_ok_def options_globalnet_def options_connectivity_def)
  note th = Broker_mutates_options[OF run_collapse[of env_retry options_globalnet]]
  from th i l have a: "IpsecSubmFile (fst (Broker env_retry options_globalnet)) = brokerDetailsFilename"
    by blast
  from th en v g
  have b: "DefaultGlobalnetClusterSize (BrokerSpec (fst (Broker env_retry options_globalnet))) = 65536"
    by simp
  from a i have "fst (Broker env_retry options_globalnet) \<noteq> options_globalnet"
    by (auto simp: brokerDetailsFilename_def)
  with i z a b show ?thesis by simp
qed

section \<open>Errors that no report announces\<close>

text \<open>
  When the call that fails is the resolution of the operator image, \<open>NewFromCluster\<close>,
  \<open>BackupIfExists\<close>, \<open>ValidateExistingGlobalNetworks\<close> or \<open>CreateGlobalnetConfigMap\<close>,
  the failed call is the last event of the run: the error is wrapped and returned, and
  the reporter is not called again.
\<close>

lemma Broker_unreported_failures:
  assumes run: "Broker env options = (options', tr, res)"
    and f: "failures tr = [c]"
    and k: "phase_rank c \<in> {4, 8, 9, 10, 11}"
  shows "\<exists>e message. last tr = Call c (Some e) \<and> res = Some (Wrapped e message)"
  using run
proof (cases rule: Broker_cases)
  case (written config operatorImage reports subctlData0 newFilename err)
  with f k show ?thesis by (cases err) (auto simp add: part_defs split: sum.splits if_splits)
qed (use f k in \<open>auto simp add: part_defs split: sum.splits if_splits\<close>)

text \<open>
  Claim C1 has every error of a provisioning phase announced to the reporter as a
  failure before it is returned. When the operator image cannot be resolved, \<open>deploy\<close>
  returns the wrapped error right after \<open>Started\<close>: the trace of the run holds neither an
  \<open>EndedWith\<close> with an error nor a \<open>Failed\<close>.
\<close>

theorem Broker_image_error_unreported:
  "Broker env_no_image options_connectivity
     = (options_connectivity,
        [Call ForCluster None,
         Report (Started ''Setting up broker RBAC''),
         Call (BrokerEnsure ''https://broker.example:6443'' [''connectivity''] False
                 ''submariner-k8s-broker'') None,
         Report (EndedWith None),
         Report (Started ''Deploying the Submariner operator''),
         Call (ForOperator ''0.12.0'' ''quay.io/submariner'') (Some (Error ''invalid image version''))],
        Some (Wrapped (Error ''invalid image version'') ''error getting Operator image''))
   \<and> \<not> list_ex is_failure_report (reports_of (fst (snd (Broker env_no_image options_connectivity))))"
  by (simp add: eval_defs)

end
